theory Spec2Isabelle
  imports Complex_Main
begin

section \<open>JavaScript values and string operations used by the dashboard\<close>

text \<open>
  A property that may be absent, \<open>null\<close> or present. The nullish operators of the
  source (\<open>a ?? b\<close>, \<open>a?.f\<close>) treat \<open>undefined\<close> and \<open>null\<close> alike; the strict
  comparisons \<open>=== null\<close> and \<open>!== null\<close> do not.
\<close>

datatype 'a js_opt = Undefined | Null | Val 'a

text \<open>\<open>a ?? b\<close>\<close>

definition nullish :: "'a js_opt \<Rightarrow> 'a js_opt \<Rightarrow> 'a js_opt" where
  "nullish a b = (case a of Val x \<Rightarrow> Val x | _ \<Rightarrow> b)"

text \<open>\<open>x ?? null\<close> for an optional property \<open>x\<close> of a parsed JSON object.\<close>

definition or_null :: "'a option \<Rightarrow> 'a js_opt" where
  "or_null x = (case x of Some v \<Rightarrow> Val v | None \<Rightarrow> Null)"

text \<open>
  A JavaScript number: \<open>NaN\<close>, a finite value (taken as the real it stands for),
  \<open>Infinity\<close> or \<open>-Infinity\<close>.
\<close>

datatype js_number = NaN | Num real | PosInfinity | NegInfinity

text \<open>\<open>a < b\<close> and \<open>a <= b\<close> on numbers: false as soon as one side is \<open>NaN\<close>.\<close>

fun js_less :: "js_number \<Rightarrow> js_number \<Rightarrow> bool" where
  "js_less NaN b = False"
| "js_less a NaN = False"
| "js_less (Num x) (Num y) = (x < y)"
| "js_less (Num x) PosInfinity = True"
| "js_less (Num x) NegInfinity = False"
| "js_less PosInfinity b = False"
| "js_less NegInfinity NegInfinity = False"
| "js_less NegInfinity b = True"

definition js_le :: "js_number \<Rightarrow> js_number \<Rightarrow> bool" where
  "js_le a b = (js_less a b \<or> (a = b \<and> a \<noteq> NaN))"

text \<open>\<open>Math.max\<close> and \<open>Math.min\<close> of two numbers.\<close>

definition Math_max :: "js_number \<Rightarrow> js_number \<Rightarrow> js_number" where
  "Math_max a b = (if a = NaN \<or> b = NaN then NaN else if js_less a b then b else a)"

definition Math_min :: "js_number \<Rightarrow> js_number \<Rightarrow> js_number" where
  "Math_min a b = (if a = NaN \<or> b = NaN then NaN else if js_less b a then b else a)"

text \<open>
  \<open>a - b\<close>. The difference of two finite numbers is taken exactly; only its sign is
  used below, and the sign of the rounded difference is the same.
\<close>

fun js_minus :: "js_number \<Rightarrow> js_number \<Rightarrow> js_number" where
  "js_minus NaN b = NaN"
| "js_minus a NaN = NaN"
| "js_minus (Num x) (Num y) = Num (x - y)"
| "js_minus (Num x) PosInfinity = NegInfinity"
| "js_minus (Num x) NegInfinity = PosInfinity"
| "js_minus PosInfinity PosInfinity = NaN"
| "js_minus PosInfinity b = PosInfinity"
| "js_minus NegInfinity NegInfinity = NaN"
| "js_minus NegInfinity b = NegInfinity"

text \<open>Truthiness of a number: \<open>NaN\<close> and 0 are falsy.\<close>

definition truthy :: "js_number \<Rightarrow> bool" where
  "truthy n = (case n of NaN \<Rightarrow> False | Num v \<Rightarrow> v \<noteq> 0 | _ \<Rightarrow> True)"

text \<open>
  \<open>Number(s)\<close> for a string \<open>s\<close> and \<open>s.trim()\<close> belong to the JavaScript runtime.
  The definitions that call them take them as the parameters \<open>Number\<close> and \<open>trim\<close>, so
  that what is proved of these definitions is proved for every such function, and for
  those of the runtime among them.
\<close>

text \<open>
  Strings are byte strings. \<open>toLowerCase\<close> maps the letters A to Z to a to z and leaves
  every other character.
\<close>

definition toLower_char :: "char \<Rightarrow> char" where
  "toLower_char c =
     (case map_of (zip ''ABCDEFGHIJKLMNOPQRSTUVWXYZ'' ''abcdefghijklmnopqrstuvwxyz'') c of
        Some l \<Rightarrow> l | None \<Rightarrow> c)"

definition toLowerCase :: "string \<Rightarrow> string" where
  "toLowerCase s = map toLower_char s"

fun startsWith :: "string \<Rightarrow> string \<Rightarrow> bool" where
  "startsWith s [] = True"
| "startsWith [] (p # ps) = False"
| "startsWith (c # cs) (p # ps) = (c = p \<and> startsWith cs ps)"

text \<open>\<open>s.includes(sub)\<close> (written \<open>str_includes\<close>): \<open>sub\<close> occurs in \<open>s\<close> as a contiguous substring.\<close>

fun str_includes :: "string \<Rightarrow> string \<Rightarrow> bool" where
  "str_includes [] sub = (sub = [])"
| "str_includes (c # cs) sub = (startsWith (c # cs) sub \<or> str_includes cs sub)"

text \<open>\<open>s.replace(/[^a-z0-9]/g, '')\<close>\<close>

definition isLowerAlnum :: "char \<Rightarrow> bool" where
  "isLowerAlnum c = (c \<in> set ''abcdefghijklmnopqrstuvwxyz0123456789'')"

definition condense :: "string \<Rightarrow> string" where
  "condense s = filter isLowerAlnum s"

section \<open>Pool detail page: connection endpoints\<close>

text \<open>
  The parts of \<open>VarDiffConfig\<close>, \<open>PortConfig\<close> and \<open>ConnectionRow\<close> that the selection
  logic reads. The display fields (label, flag, endpoint URI, the other variable-difficulty
  settings) are carried along by the source and never inspected by it.
\<close>

record VarDiffConfig =
  minDiff :: "real option"

record PortConfig =
  port_name :: "string option"
  port_difficulty :: "real option"
  port_varDiff :: "VarDiffConfig option"

record ConnectionRow =
  row_id :: string
  host :: string
  port :: js_number
  profileName :: "string js_opt"
  difficulty :: "real js_opt"
  varDiffMin :: "real js_opt"

datatype latency_status = Idle | Testing | Success | Error

record LatencyState =
  latency :: "int option"
  status :: latency_status
  error :: "string option"

record ConnectionGroup =
  group_id :: string
  group_host :: string
  endpoints :: "ConnectionRow list"

text \<open>
  \<open>connectionRows\<close>: \<open>portEntries\<close> is \<open>Object.entries(pool.ports)\<close>, the port keys with
  their configurations in JavaScript's enumeration order (ascending for keys that are
  decimal port numbers). With no port there is one row for the bare host.
\<close>

definition connectionRows ::
  "(string \<Rightarrow> js_number) \<Rightarrow> string \<Rightarrow> (string \<times> PortConfig) list \<Rightarrow> ConnectionRow list" where
  "connectionRows Number stratumHost portEntries =
     (if portEntries = [] then
        [\<lparr>row_id = ''default'', host = stratumHost, port = Num 3333,
          profileName = Undefined, difficulty = Undefined, varDiffMin = Undefined\<rparr>]
      else
        map (\<lambda>(p, config).
              \<lparr>row_id = stratumHost @ ''-'' @ p, host = stratumHost, port = Number p,
               profileName = or_null (port_name config),
               difficulty = or_null (port_difficulty config),
               varDiffMin = or_null (case port_varDiff config of None \<Rightarrow> None | Some v \<Rightarrow> minDiff v)\<rparr>)
          portEntries)"

subsection \<open>Default endpoint\<close>

definition isMidTier :: "ConnectionRow \<Rightarrow> bool" where
  "isMidTier row =
     (let profile = toLowerCase (case profileName row of Val n \<Rightarrow> n | _ \<Rightarrow> '''');
          condensed = condense profile
      in str_includes condensed ''midrange'' \<or> str_includes condensed ''midtier'' \<or> str_includes condensed ''medium'')"

definition isPreferred :: "ConnectionRow \<Rightarrow> bool" where
  "isPreferred row =
     (case nullish (difficulty row) (nullish (varDiffMin row) Null) of
        Val diff \<Rightarrow> diff > 0 \<and> diff \<le> 2048
      | _ \<Rightarrow> False)"

definition defaultEndpointRow :: "ConnectionRow list \<Rightarrow> ConnectionRow option" where
  "defaultEndpointRow rows =
     (case rows of
        [] \<Rightarrow> None
      | first # _ \<Rightarrow>
          (case find isMidTier rows of
             Some midTier \<Rightarrow> Some midTier
           | None \<Rightarrow>
               (case find isPreferred rows of
                  Some preferred \<Rightarrow> Some preferred
                | None \<Rightarrow> Some first)))"

subsection \<open>Best latency\<close>

text \<open>The running minimum of the loop starts at \<open>Number.POSITIVE_INFINITY\<close>.\<close>

datatype bound = POSITIVE_INFINITY | Finite int

fun less_than :: "int \<Rightarrow> bound \<Rightarrow> bool" where
  "less_than l POSITIVE_INFINITY = True"
| "less_than l (Finite b) = (l < b)"

text \<open>One iteration of the \<open>forEach\<close> over the rows, on the pair \<open>(best, bestLatency)\<close>.\<close>

definition bestLatency_step ::
  "(string \<rightharpoonup> LatencyState) \<Rightarrow> ConnectionRow \<Rightarrow> ConnectionRow option \<times> bound \<Rightarrow> ConnectionRow option \<times> bound" where
  "bestLatency_step latencyMap row acc =
     (case latencyMap (row_id row) of
        None \<Rightarrow> acc
      | Some entry \<Rightarrow>
          (case latency entry of
             None \<Rightarrow> acc
           | Some l \<Rightarrow>
               if status entry = Success \<and> less_than l (snd acc) then (Some row, Finite l) else acc))"

definition bestLatencyRow :: "ConnectionRow list \<Rightarrow> (string \<rightharpoonup> LatencyState) \<Rightarrow> ConnectionRow option" where
  "bestLatencyRow rows latencyMap =
     fst (fold (bestLatency_step latencyMap) rows (None, POSITIVE_INFINITY))"

text \<open>
  The latency of a row's successful sample: \<open>None\<close> for a row with no sample, with a
  sample that is idle, testing or failed, or with no latency value.
\<close>

definition success_latency :: "(string \<rightharpoonup> LatencyState) \<Rightarrow> ConnectionRow \<Rightarrow> int option" where
  "success_latency latencyMap row =
     (case latencyMap (row_id row) of
        None \<Rightarrow> None
      | Some entry \<Rightarrow> if status entry = Success then latency entry else None)"

subsection \<open>Groups by host\<close>

text \<open>
  The \<open>Map\<close> keyed by host that \<open>connectionGroups\<close> fills, as the list of its entries in
  insertion order: a row opens an entry for its host if there is none, and is pushed onto
  the entry of its host.
\<close>

fun byHost_add :: "ConnectionRow \<Rightarrow> (string \<times> ConnectionRow list) list \<Rightarrow> (string \<times> ConnectionRow list) list" where
  "byHost_add row [] = [(host row, [row])]"
| "byHost_add row ((key, es) # rest) =
     (if key = host row then (key, es @ [row]) # rest else (key, es) # byHost_add row rest)"

text \<open>
  \<open>[...endpoints].sort((a, b) => a.port - b.port)\<close>: the comparator's value, and the
  stable sort as an insertion sort, in which a row goes behind another only when the
  comparator's value for the two is greater than 0 (a \<open>NaN\<close> value counts as 0). (For
  rows whose ports are all finite numbers the comparator is a total preorder and the
  result is the stable ascending order.)
\<close>

definition port_compare :: "ConnectionRow \<Rightarrow> ConnectionRow \<Rightarrow> js_number" where
  "port_compare a b = js_minus (port a) (port b)"

fun insert_by_port :: "ConnectionRow \<Rightarrow> ConnectionRow list \<Rightarrow> ConnectionRow list" where
  "insert_by_port a [] = [a]"
| "insert_by_port a (b # bs) =
     (if js_less (Num 0) (port_compare a b) then b # insert_by_port a bs else a # b # bs)"

definition sort_by_port :: "ConnectionRow list \<Rightarrow> ConnectionRow list" where
  "sort_by_port es = foldr insert_by_port es []"

definition connectionGroups :: "ConnectionRow list \<Rightarrow> ConnectionGroup list" where
  "connectionGroups rows =
     map (\<lambda>(key, es). \<lparr>group_id = key, group_host = key, endpoints = sort_by_port es\<rparr>)
       (fold byHost_add rows [])"

definition groupByHost :: "ConnectionGroup list \<Rightarrow> (string \<rightharpoonup> ConnectionGroup)" where
  "groupByHost groups = fold (\<lambda>grp m. m(group_host grp \<mapsto> grp)) groups Map.empty"

definition groupById :: "ConnectionGroup list \<Rightarrow> (string \<rightharpoonup> ConnectionGroup)" where
  "groupById groups = fold (\<lambda>grp m. m(group_id grp \<mapsto> grp)) groups Map.empty"

text \<open>\<open>h ? groupByHost.get(h) ?? null : null\<close> for the host \<open>h\<close> of an optional row.\<close>

definition group_of_row :: "ConnectionGroup list \<Rightarrow> ConnectionRow option \<Rightarrow> ConnectionGroup option" where
  "group_of_row groups row =
     (case row of
        None \<Rightarrow> None
      | Some r \<Rightarrow> if host r = [] then None else groupByHost groups (host r))"

definition defaultGroup :: "ConnectionRow list \<Rightarrow> ConnectionGroup option" where
  "defaultGroup rows = group_of_row (connectionGroups rows) (defaultEndpointRow rows)"

definition bestLatencyGroup :: "ConnectionRow list \<Rightarrow> (string \<rightharpoonup> LatencyState) \<Rightarrow> ConnectionGroup option" where
  "bestLatencyGroup rows latencyMap = group_of_row (connectionGroups rows) (bestLatencyRow rows latencyMap)"

definition selectedGroup :: "ConnectionGroup list \<Rightarrow> string option \<Rightarrow> ConnectionGroup option" where
  "selectedGroup groups selectedId =
     (case selectedId of
        None \<Rightarrow> None
      | Some i \<Rightarrow> if i = [] then None else groupById groups i)"

text \<open>\<open>a ?? b\<close> on optional objects.\<close>

definition orElse :: "'a option \<Rightarrow> 'a option \<Rightarrow> 'a option" where
  "orElse a b = (case a of Some x \<Rightarrow> Some x | None \<Rightarrow> b)"

text \<open>\<open>xs[0] ?? null\<close>\<close>

definition first_of :: "'a list \<Rightarrow> 'a option" where
  "first_of xs = (case xs of [] \<Rightarrow> None | x # _ \<Rightarrow> Some x)"

subsection \<open>Endpoint of a group\<close>

definition fastestEndpointFor :: "(string \<rightharpoonup> LatencyState) \<Rightarrow> ConnectionGroup option \<Rightarrow> ConnectionRow option" where
  "fastestEndpointFor latencyMap g =
     (case g of
        None \<Rightarrow> None
      | Some grp \<Rightarrow>
          orElse (fst (fold (bestLatency_step latencyMap) (endpoints grp) (None, POSITIVE_INFINITY)))
            (first_of (endpoints grp)))"

definition nameHasMid :: "ConnectionRow \<Rightarrow> bool" where
  "nameHasMid endpoint = (case profileName endpoint of Val n \<Rightarrow> str_includes (toLowerCase n) ''mid'' | _ \<Rightarrow> False)"

definition isVarDiffEndpoint :: "ConnectionRow \<Rightarrow> bool" where
  "isVarDiffEndpoint endpoint = (difficulty endpoint = Null \<or> varDiffMin endpoint \<noteq> Null)"

definition pickEndpointForGroup ::
  "ConnectionRow list \<Rightarrow> (string \<rightharpoonup> LatencyState) \<Rightarrow> ConnectionGroup option \<Rightarrow> ConnectionRow option" where
  "pickEndpointForGroup rows latencyMap g =
     (case g of
        None \<Rightarrow> None
      | Some grp \<Rightarrow>
          orElse
            (case defaultEndpointRow rows of
               None \<Rightarrow> None
             | Some d \<Rightarrow>
                 if host d = group_host grp
                 then find (\<lambda>endpoint. row_id endpoint = row_id d) (endpoints grp)
                 else None)
            (orElse (find nameHasMid (endpoints grp))
               (orElse (find isVarDiffEndpoint (endpoints grp))
                  (fastestEndpointFor latencyMap (Some grp)))))"

subsection \<open>Selection state and its reconciliation\<close>

text \<open>
  The two refs and the two pieces of component state. An effect reads the state of the
  render it belongs to (\<open>s\<close>) and the refs as they are when it runs; what it writes goes
  to \<open>t\<close>: refs at once, state as the queued update that the next render shows.
\<close>

record SelectionState =
  manualSelectionRef :: bool
  manualEndpointRef :: bool
  selectedGroupId :: "string option"
  selectedEndpointId :: "string option"

definition groupEffect ::
  "ConnectionRow list \<Rightarrow> (string \<rightharpoonup> LatencyState) \<Rightarrow> SelectionState \<Rightarrow> SelectionState \<Rightarrow> SelectionState" where
  "groupEffect rows latencyMap s t =
     (let groups = connectionGroups rows in
      if groups = [] then
        t\<lparr>manualSelectionRef := False, manualEndpointRef := False,
          selectedGroupId := None, selectedEndpointId := None\<rparr>
      else
        let stillExists =
              (case selectedGroupId s of None \<Rightarrow> False | Some i \<Rightarrow> i \<noteq> [] \<and> groupById groups i \<noteq> None)
        in
        if \<not> manualSelectionRef t \<or> \<not> stillExists then
          let fallbackGroup =
                orElse (bestLatencyGroup rows latencyMap) (orElse (defaultGroup rows) (first_of groups));
              nextId = map_option group_id fallbackGroup
          in if nextId \<noteq> selectedGroupId s
             then t\<lparr>manualSelectionRef := False, selectedGroupId := nextId\<rparr>
             else t
        else t)"

definition endpointFallbackGroup ::
  "ConnectionRow list \<Rightarrow> (string \<rightharpoonup> LatencyState) \<Rightarrow> SelectionState \<Rightarrow> ConnectionGroup option" where
  "endpointFallbackGroup rows latencyMap s =
     (let groups = connectionGroups rows in
      orElse (selectedGroup groups (selectedGroupId s))
        (orElse (bestLatencyGroup rows latencyMap)
           (orElse (defaultGroup rows) (first_of groups))))"

definition endpointEffect ::
  "ConnectionRow list \<Rightarrow> (string \<rightharpoonup> LatencyState) \<Rightarrow> SelectionState \<Rightarrow> SelectionState \<Rightarrow> SelectionState" where
  "endpointEffect rows latencyMap s t =
     (case endpointFallbackGroup rows latencyMap s of
        None \<Rightarrow> t\<lparr>manualEndpointRef := False, selectedEndpointId := None\<rparr>
      | Some fallbackGroup \<Rightarrow>
          let stillExists =
                (case selectedEndpointId s of
                   None \<Rightarrow> False
                 | Some i \<Rightarrow> i \<noteq> [] \<and> list_ex (\<lambda>endpoint. row_id endpoint = i) (endpoints fallbackGroup))
          in
          if \<not> manualEndpointRef t \<or> \<not> stillExists then
            let nextEndpointId = map_option row_id (pickEndpointForGroup rows latencyMap (Some fallbackGroup))
            in if nextEndpointId \<noteq> selectedEndpointId s
               then t\<lparr>manualEndpointRef := False, selectedEndpointId := nextEndpointId\<rparr>
               else t
          else t)"

text \<open>
  One render with the rows and samples of a data refresh: the group effect, then the
  endpoint effect. (React runs an effect again only when one of its dependencies has
  changed; an effect run with unchanged dependencies and refs decides as it did before,
  so running both on every render gives the same states.)
\<close>

definition reconcile ::
  "ConnectionRow list \<Rightarrow> (string \<rightharpoonup> LatencyState) \<Rightarrow> SelectionState \<Rightarrow> SelectionState" where
  "reconcile rows latencyMap s = endpointEffect rows latencyMap s (groupEffect rows latencyMap s s)"

definition selectGroup :: "string \<Rightarrow> SelectionState \<Rightarrow> SelectionState" where
  "selectGroup groupId s =
     (if Some groupId \<noteq> selectedGroupId s
      then s\<lparr>manualSelectionRef := True, manualEndpointRef := False,
             selectedEndpointId := None, selectedGroupId := Some groupId\<rparr>
      else s\<lparr>manualSelectionRef := True, selectedGroupId := Some groupId\<rparr>)"

definition selectEndpoint :: "ConnectionGroup \<Rightarrow> ConnectionRow \<Rightarrow> SelectionState \<Rightarrow> SelectionState" where
  "selectEndpoint grp endpoint s =
     (let s1 = s\<lparr>manualSelectionRef := True, manualEndpointRef := True\<rparr>;
          s2 = (if Some (group_id grp) \<noteq> selectedGroupId s
                then s1\<lparr>selectedGroupId := Some (group_id grp)\<rparr> else s1)
      in s2\<lparr>selectedEndpointId := Some (row_id endpoint)\<rparr>)"

text \<open>
  A run of data refreshes on the pool detail page: each refresh brings the port entries
  and the latency samples of the moment; the host is fixed by the deployment.
\<close>

definition refresh ::
  "(string \<Rightarrow> js_number) \<Rightarrow> string \<Rightarrow> (string \<times> PortConfig) list \<times> (string \<rightharpoonup> LatencyState) \<Rightarrow>
     SelectionState \<Rightarrow> SelectionState" where
  "refresh Number stratumHost r s = reconcile (connectionRows Number stratumHost (fst r)) (snd r) s"

definition refreshes ::
  "(string \<Rightarrow> js_number) \<Rightarrow> string \<Rightarrow> ((string \<times> PortConfig) list \<times> (string \<rightharpoonup> LatencyState)) list \<Rightarrow>
     SelectionState \<Rightarrow> SelectionState" where
  "refreshes Number stratumHost rs s = fold (refresh Number stratumHost) rs s"

section \<open>Latency probe route\<close>

text \<open>
  A property of the request payload as the parsed JSON holds it: absent, \<open>null\<close>, a
  boolean, a number or a string. (A payload that is not an object has no properties: all
  three are absent. Arrays and objects as property values are left out.)
\<close>

datatype js_value = VUndefined | VNull | VBool bool | VNumber js_number | VString string

record LatencyRequest =
  req_host :: js_value
  req_port :: js_value
  req_timeout :: js_value

text \<open>What \<open>request.json()\<close> gives: it throws, or it is \<open>null\<close>, or it carries properties.\<close>

datatype request_json = InvalidJson | JsonNull | JsonPayload LatencyRequest

text \<open>\<open>Number(v)\<close> for a property \<open>v\<close>\<close>

definition Number_of :: "(string \<Rightarrow> js_number) \<Rightarrow> js_value \<Rightarrow> js_number" where
  "Number_of Number v =
     (case v of
        VUndefined \<Rightarrow> NaN
      | VNull \<Rightarrow> Num 0
      | VBool b \<Rightarrow> Num (if b then 1 else 0)
      | VNumber n \<Rightarrow> n
      | VString s \<Rightarrow> Number s)"

text \<open>\<open>n || d\<close> for a number \<open>n\<close>\<close>

definition or_number :: "js_number \<Rightarrow> js_number \<Rightarrow> js_number" where
  "or_number n d = (if truthy n then n else d)"

text \<open>\<open>Math.min(Math.max(Number(payload.timeout) || 3000, 500), 10_000)\<close>\<close>

definition enforced_timeout :: "(string \<Rightarrow> js_number) \<Rightarrow> js_value \<Rightarrow> js_number" where
  "enforced_timeout Number requested =
     Math_min (Math_max (or_number (Number_of Number requested) (Num 3000)) (Num 500)) (Num 10000)"

datatype fault = TypeError | BadPort | RequestFailed

text \<open>
  \<open>payload.host?.trim()\<close>: absent for an absent or \<open>null\<close> host, the trimmed text for a
  string, and a \<open>TypeError\<close> for a boolean or a number, which have no \<open>trim\<close>.
\<close>

definition trimmed_host :: "(string \<Rightarrow> string) \<Rightarrow> js_value \<Rightarrow> fault + string option" where
  "trimmed_host trim h =
     (case h of
        VUndefined \<Rightarrow> Inr None
      | VNull \<Rightarrow> Inr None
      | VString s \<Rightarrow> Inr (Some (trim s))
      | _ \<Rightarrow> Inl TypeError)"

text \<open>
  \<open>net.createConnection\<close> checks the port before it starts the attempt and throws
  \<open>ERR_SOCKET_BAD_PORT\<close> for a port that is not an integer from 0 to 65535.
\<close>

definition createConnection_throws :: "js_number \<Rightarrow> bool" where
  "createConnection_throws p =
     (case p of Num v \<Rightarrow> v \<noteq> of_int \<lfloor>v\<rfloor> \<or> v < 0 \<or> v > 65535 | _ \<Rightarrow> True)"

text \<open>
  The first event of the socket: the connection is established after so many
  milliseconds, an \<open>error\<close> event, or the socket's timeout. Later events find the promise
  resolved. The network is a function of the host, the port and the timeout the socket
  was given.
\<close>

datatype socket_outcome = Connected int | ErrorEvent | TimeoutEvent

record ProbeResult =
  result_latency :: "int option"
  result_error :: "string option"

datatype response_body = ErrorOnly string | Result ProbeResult

record Response =
  resp_status :: nat
  resp_body :: response_body

definition resolve :: "socket_outcome \<Rightarrow> ProbeResult" where
  "resolve outcome =
     (case outcome of
        Connected ms \<Rightarrow> \<lparr>result_latency = Some ms, result_error = None\<rparr>
      | TimeoutEvent \<Rightarrow> \<lparr>result_latency = None, result_error = Some ''timeout''\<rparr>
      | ErrorEvent \<Rightarrow> \<lparr>result_latency = None, result_error = Some ''connect-error''\<rparr>)"

definition host_and_port_required :: Response where
  "host_and_port_required = \<lparr>resp_status = 400, resp_body = ErrorOnly ''host and port are required''\<rparr>"

definition POST ::
  "(string \<Rightarrow> js_number) \<Rightarrow> (string \<Rightarrow> string) \<Rightarrow> request_json \<Rightarrow>
     (string \<Rightarrow> js_number \<Rightarrow> js_number \<Rightarrow> socket_outcome) \<Rightarrow> fault + Response" where
  "POST Number trim request network =
     (case request of
        InvalidJson \<Rightarrow> Inr \<lparr>resp_status = 400, resp_body = ErrorOnly ''Invalid JSON payload''\<rparr>
      | JsonNull \<Rightarrow> Inl TypeError
      | JsonPayload payload \<Rightarrow>
          (case trimmed_host trim (req_host payload) of
             Inl e \<Rightarrow> Inl e
           | Inr h \<Rightarrow>
               let p = Number_of Number (req_port payload);
                   timeout = enforced_timeout Number (req_timeout payload)
               in
               (case h of
                  None \<Rightarrow> Inr host_and_port_required
                | Some hostname \<Rightarrow>
                    if hostname = [] \<or> p = NaN \<or> js_le p (Num 0) then Inr host_and_port_required
                    else if createConnection_throws p then Inl BadPort
                    else Inr \<lparr>resp_status = 200,
                              resp_body = Result (resolve (network hostname p timeout))\<rparr>)))"

text \<open>The spec's clamp.\<close>

definition clamp :: "real \<Rightarrow> real \<Rightarrow> real \<Rightarrow> real" where
  "clamp x lo hi = (if x < lo then lo else if x > hi then hi else x)"

subsection \<open>The caller of the route\<close>

text \<open>
  \<open>testLatency\<close> in the pool detail page and in the latency panel: what \<open>fetch\<close> and
  \<open>response.json()\<close> give, and the sample stored for it. Any exception inside the
  \<open>try\<close> block is caught.
\<close>

datatype response_json = NotJson | NullJson | JsonBody "real js_opt" "string option"

datatype fetch_outcome = FetchRejected | FetchResponse bool response_json

text \<open>\<open>Math.round\<close>\<close>

definition Math_round :: "real \<Rightarrow> int" where
  "Math_round x = \<lfloor>x + 1 / 2\<rfloor>"

definition network_error :: LatencyState where
  "network_error = \<lparr>latency = None, status = Error, error = Some ''network-error''\<rparr>"

definition testLatency_sample :: "fetch_outcome \<Rightarrow> LatencyState" where
  "testLatency_sample outcome =
     (case outcome of
        FetchRejected \<Rightarrow> network_error
      | FetchResponse ok NotJson \<Rightarrow> network_error
      | FetchResponse ok NullJson \<Rightarrow> network_error
      | FetchResponse ok (JsonBody lat err) \<Rightarrow>
          if \<not> ok \<or> lat = Null then
            \<lparr>latency = None, status = Error,
             error = Some (case err of Some e \<Rightarrow> e | None \<Rightarrow> ''unreachable'')\<rparr>
          else
            \<lparr>latency = Some (Math_round (case lat of Val v \<Rightarrow> v | _ \<Rightarrow> 0)), status = Success, error = None\<rparr>)"

definition testLatency ::
  "ConnectionRow \<Rightarrow> fetch_outcome \<Rightarrow> (string \<rightharpoonup> LatencyState) \<Rightarrow> (string \<rightharpoonup> LatencyState)" where
  "testLatency row outcome latencyMap = latencyMap(row_id row \<mapsto> testLatency_sample outcome)"

text \<open>
  What the caller reads of a response of the route: \<open>NextResponse.json\<close> writes the
  body as JSON, and \<open>response.ok\<close> holds for a status from 200 to 299.
\<close>

definition answer_of :: "Response \<Rightarrow> fetch_outcome" where
  "answer_of response =
     FetchResponse (200 \<le> resp_status response \<and> resp_status response \<le> 299)
       (case resp_body response of
          ErrorOnly e \<Rightarrow> JsonBody Undefined (Some e)
        | Result r \<Rightarrow>
            JsonBody (case result_latency r of None \<Rightarrow> Null | Some ms \<Rightarrow> Val (of_int ms))
              (result_error r))"

text \<open>
  A probe from the caller's side: the request reaches the route and its answer comes back,
  or the exchange itself fails and \<open>fetch\<close> rejects. The outcome is the sample the
  caller stores; a fault raised inside the route is kept as a fault.
\<close>

datatype exchange = Delivered | Dropped

definition probe ::
  "(string \<Rightarrow> js_number) \<Rightarrow> (string \<Rightarrow> string) \<Rightarrow> LatencyRequest \<Rightarrow>
     (string \<Rightarrow> js_number \<Rightarrow> js_number \<Rightarrow> socket_outcome) \<Rightarrow> exchange \<Rightarrow> fault + LatencyState" where
  "probe Number trim payload network transport =
     (case transport of
        Dropped \<Rightarrow> Inr (testLatency_sample FetchRejected)
      | Delivered \<Rightarrow>
          (case POST Number trim (JsonPayload payload) network of
             Inl f \<Rightarrow> Inl f
           | Inr response \<Rightarrow> Inr (testLatency_sample (answer_of response))))"

section \<open>Pool data client and hook\<close>

text \<open>
  A parsed response body. The fields of an object are listed once each, as
  \<open>JSON.parse\<close> leaves them.
\<close>

datatype json = JNull | JBool bool | JNum real | JStr string | JArr "json list" | JObj "(string \<times> json) list"

datatype 'a request_outcome = Rejected | Resolved 'a

text \<open>\<open>fetchPools\<close>: the data of the response, or the error thrown again.\<close>

definition fetchPools :: "json request_outcome \<Rightarrow> fault + json" where
  "fetchPools got =
     (case got of
        Resolved data \<Rightarrow> Inr data
      | Rejected \<Rightarrow> Inl RequestFailed)"

text \<open>\<open>response?.pools\<close>\<close>

definition pools_property :: "json \<Rightarrow> json option" where
  "pools_property response = (case response of JObj props \<Rightarrow> map_of props ''pools'' | _ \<Rightarrow> None)"

definition poolList :: "json \<Rightarrow> json list" where
  "poolList response =
     (case pools_property response of
        Some (JArr ps) \<Rightarrow> ps
      | _ \<Rightarrow> (case response of JArr ps \<Rightarrow> ps | _ \<Rightarrow> []))"

record PoolsState =
  pools :: "json list"
  loading :: bool
  pools_error :: "string option"
  lastUpdated :: "int option"

text \<open>\<open>load\<close>, with the outcome of the request and the value of \<open>Date.now()\<close>.\<close>

definition load :: "json request_outcome \<Rightarrow> int \<Rightarrow> PoolsState \<Rightarrow> PoolsState" where
  "load got now s =
     (let s1 = s\<lparr>loading := True\<rparr>;
          s2 = (case fetchPools got of
                  Inr response \<Rightarrow>
                    s1\<lparr>pools := poolList response, pools_error := None, lastUpdated := Some now\<rparr>
                | Inl err \<Rightarrow> s1\<lparr>pools_error := Some ''Unable to load pool data.''\<rparr>)
      in s2\<lparr>loading := False\<rparr>)"

section \<open>Stratum latency panel\<close>

text \<open>
  The pool as the panel reads it (its id and the keys of its port map, in enumeration
  order) and the location it derives (without the label and the notes shown with it).
\<close>

record Pool =
  pool_id :: string
  pool_ports :: "(string \<times> PortConfig) list option"

record StratumLocation =
  loc_id :: string
  loc_host :: string
  loc_port :: js_number

definition location_of :: "(string \<Rightarrow> js_number) \<Rightarrow> string \<Rightarrow> Pool \<Rightarrow> string \<Rightarrow> StratumLocation" where
  "location_of Number defaultHost pool p =
     \<lparr>loc_id = pool_id pool @ ''-'' @ p, loc_host = defaultHost, loc_port = Number p\<rparr>"

definition add_port ::
  "(string \<Rightarrow> js_number) \<Rightarrow> string \<Rightarrow> Pool \<Rightarrow> string \<Rightarrow> StratumLocation list \<Rightarrow> StratumLocation list" where
  "add_port Number defaultHost pool p generated =
     (if \<not> truthy (Number p) then generated
      else if length generated \<ge> 6 then generated
      else generated @ [location_of Number defaultHost pool p])"

definition port_keys :: "Pool \<Rightarrow> string list" where
  "port_keys pool = (case pool_ports pool of None \<Rightarrow> [] | Some ps \<Rightarrow> map fst ps)"

definition add_pool ::
  "(string \<Rightarrow> js_number) \<Rightarrow> string \<Rightarrow> Pool \<Rightarrow> StratumLocation list \<Rightarrow> StratumLocation list" where
  "add_pool Number defaultHost pool generated =
     fold (add_port Number defaultHost pool) (port_keys pool) generated"

definition fallback_location :: "string \<Rightarrow> StratumLocation" where
  "fallback_location defaultHost = \<lparr>loc_id = ''default-5108'', loc_host = defaultHost, loc_port = Num 5108\<rparr>"

definition derivedLocations ::
  "(string \<Rightarrow> js_number) \<Rightarrow> Pool list \<Rightarrow> string \<Rightarrow> StratumLocation list option \<Rightarrow> StratumLocation list" where
  "derivedLocations Number all_pools defaultHost locations =
     (let derived =
            (let generated = fold (add_pool Number defaultHost) all_pools []
             in if generated = [] then [fallback_location defaultHost] else generated)
      in case locations of
           None \<Rightarrow> derived
         | Some ls \<Rightarrow> if length ls > 0 then ls else derived)"

text \<open>The entries the pools offer, before the limit: one for every port key whose number is truthy.\<close>

definition candidate_locations :: "(string \<Rightarrow> js_number) \<Rightarrow> string \<Rightarrow> Pool list \<Rightarrow> StratumLocation list" where
  "candidate_locations Number defaultHost all_pools =
     concat (map (\<lambda>pool. map (location_of Number defaultHost pool)
                          (filter (\<lambda>p. truthy (Number p)) (port_keys pool))) all_pools)"

section \<open>Inputs of the examples and auxiliary notions\<close>

text \<open>
  The examples need values of \<open>trim\<close> and \<open>Number\<close> on their texts. \<open>plain_trim\<close>
  drops, at both ends, the white space among the characters below 256: tab, line feed,
  vertical tab, form feed, carriage return, space and no-break space. \<open>decimal_Number\<close>
  reads a text so trimmed: the empty text is 0, an optional sign followed by decimal
  digits is that integer, and anything else is \<open>NaN\<close>. On the texts of the examples
  (host names, port keys of a few decimal digits with or without a sign, the words
  \<open>stratum\<close> and \<open>soon\<close>) these are the values of the runtime's functions.
\<close>

definition isSpace :: "char \<Rightarrow> bool" where
  "isSpace c = (c \<in> set [CHR '' '', CHR 0x09, CHR 0x0A, CHR 0x0B, CHR 0x0C, CHR 0x0D, CHR 0xA0])"

definition plain_trim :: "string \<Rightarrow> string" where
  "plain_trim s = rev (dropWhile isSpace (rev (dropWhile isSpace s)))"

definition digitValue :: "char \<Rightarrow> nat option" where
  "digitValue c = map_of (zip ''0123456789'' [0, 1, 2, 3, 4, 5, 6, 7, 8, 9]) c"

fun digitsValue :: "nat \<Rightarrow> string \<Rightarrow> nat option" where
  "digitsValue acc [] = Some acc"
| "digitsValue acc (c # cs) =
     (case digitValue c of None \<Rightarrow> None | Some d \<Rightarrow> digitsValue (10 * acc + d) cs)"

definition unsignedNumber :: "string \<Rightarrow> real option" where
  "unsignedNumber ds = (if ds = [] then None else map_option real (digitsValue 0 ds))"

definition decimal_Number :: "string \<Rightarrow> js_number" where
  "decimal_Number s =
     (let t = plain_trim s in
      if t = [] then Num 0
      else case t of
        c # ds \<Rightarrow>
          if c = CHR ''-'' then (case unsignedNumber ds of None \<Rightarrow> NaN | Some v \<Rightarrow> Num (- v))
          else if c = CHR ''+'' then (case unsignedNumber ds of None \<Rightarrow> NaN | Some v \<Rightarrow> Num v)
          else (case unsignedNumber t of None \<Rightarrow> NaN | Some v \<Rightarrow> Num v))"

text \<open>The port configuration \<open>{}\<close>, and the selection state of a freshly mounted page.\<close>

definition emptyConfig :: PortConfig where
  "emptyConfig = \<lparr>port_name = None, port_difficulty = None, port_varDiff = None\<rparr>"

definition initialSelection :: SelectionState where
  "initialSelection =
     \<lparr>manualSelectionRef = False, manualEndpointRef = False,
      selectedGroupId = None, selectedEndpointId = None\<rparr>"

text \<open>An endpoint known by its id only, and a successful and a failed sample.\<close>

definition endpoint_named :: "string \<Rightarrow> ConnectionRow" where
  "endpoint_named i =
     \<lparr>row_id = i, host = ''pool.local'', port = Num 3333,
      profileName = Null, difficulty = Null, varDiffMin = Null\<rparr>"

definition success_sample :: "int \<Rightarrow> LatencyState" where
  "success_sample ms = \<lparr>latency = Some ms, status = Success, error = None\<rparr>"

definition error_sample :: "string \<Rightarrow> LatencyState" where
  "error_sample reason = \<lparr>latency = None, status = Error, error = Some reason\<rparr>"

text \<open>
  The invariant of the best-latency loop after the rows \<open>xs\<close>: with no row chosen yet
  the bound is still infinite and no row of \<open>xs\<close> has a successful sample; otherwise the
  chosen row stands at a position \<open>i\<close> of \<open>xs\<close>, the bound is its latency, no successful
  row of \<open>xs\<close> is faster and none before \<open>i\<close> is as fast.
\<close>

definition best_inv ::
  "(string \<rightharpoonup> LatencyState) \<Rightarrow> ConnectionRow list \<Rightarrow> ConnectionRow option \<times> bound \<Rightarrow> bool" where
  "best_inv lm xs acc =
     (case fst acc of
        None \<Rightarrow> snd acc = POSITIVE_INFINITY \<and> (\<forall>r\<in>set xs. success_latency lm r = None)
      | Some r \<Rightarrow>
          (\<exists>i l. i < length xs \<and> xs ! i = r \<and> success_latency lm r = Some l \<and> snd acc = Finite l \<and>
             (\<forall>j<length xs. \<forall>l'. success_latency lm (xs ! j) = Some l' \<longrightarrow>
                 l \<le> l' \<and> (j < i \<longrightarrow> l < l'))))"

text \<open>\<open>sub\<close> occurs in \<open>s\<close>: some text, then \<open>sub\<close>, then some text.\<close>

definition contains_text :: "string \<Rightarrow> string \<Rightarrow> bool" where
  "contains_text s sub = (\<exists>pre post. s = pre @ sub @ post)"

text \<open>
  The marker of the first stage of the default selection: the row has a profile name
  which, in lower case and without the characters other than a to z and 0 to 9, contains
  \<open>midrange\<close>, \<open>midtier\<close> or \<open>medium\<close>.
\<close>

definition has_marker :: "ConnectionRow \<Rightarrow> bool" where
  "has_marker row =
     (\<exists>n. profileName row = Val n \<and>
          (contains_text (condense (toLowerCase n)) ''midrange'' \<or>
           contains_text (condense (toLowerCase n)) ''midtier'' \<or>
           contains_text (condense (toLowerCase n)) ''medium''))"

text \<open>
  The effective difficulty of a row: its fixed difficulty, or else its variable-difficulty
  minimum; and the range \<open>(0, 2048]\<close>.
\<close>

definition effective_difficulty :: "ConnectionRow \<Rightarrow> real option" where
  "effective_difficulty row =
     (case difficulty row of
        Val d \<Rightarrow> Some d
      | _ \<Rightarrow> (case varDiffMin row of Val m \<Rightarrow> Some m | _ \<Rightarrow> None))"

definition difficulty_in_range :: "ConnectionRow \<Rightarrow> bool" where
  "difficulty_in_range row = (\<exists>d. effective_difficulty row = Some d \<and> 0 < d \<and> d \<le> 2048)"

text \<open>
  The port maps \<open>{3333: {}, 3355: {name: "Mid"}, 3377: {}}\<close>,
  \<open>{3333: {}, 3355: {name: "Mid-Range"}, 3377: {}}\<close>,
  \<open>{100: {difficulty: 4096}, 200: {difficulty: 1024}}\<close> and
  \<open>{100: {difficulty: 1024}, 200: {name: "Me-dium"}}\<close>.
\<close>

definition ports_with_Me_dium :: "(string \<times> PortConfig) list" where
  "ports_with_Me_dium =
     [(''100'', emptyConfig\<lparr>port_difficulty := Some 1024\<rparr>),
      (''200'', emptyConfig\<lparr>port_name := Some ''Me-dium''\<rparr>)]"

definition ports_with_Mid :: "(string \<times> PortConfig) list" where
  "ports_with_Mid =
     [(''3333'', emptyConfig), (''3355'', emptyConfig\<lparr>port_name := Some ''Mid''\<rparr>), (''3377'', emptyConfig)]"

definition ports_with_Mid_Range :: "(string \<times> PortConfig) list" where
  "ports_with_Mid_Range =
     [(''3333'', emptyConfig), (''3355'', emptyConfig\<lparr>port_name := Some ''Mid-Range''\<rparr>), (''3377'', emptyConfig)]"

definition ports_with_difficulty :: "(string \<times> PortConfig) list" where
  "ports_with_difficulty =
     [(''100'', emptyConfig\<lparr>port_difficulty := Some 4096\<rparr>),
      (''200'', emptyConfig\<lparr>port_difficulty := Some 1024\<rparr>)]"

text \<open>
  A probe request the route accepts and starts: the host is a string that is not empty
  once trimmed, and the port converts to an integer from 1 to 65535.
\<close>

definition valid_request ::
  "(string \<Rightarrow> js_number) \<Rightarrow> (string \<Rightarrow> string) \<Rightarrow> LatencyRequest \<Rightarrow> string \<Rightarrow> real \<Rightarrow> bool" where
  "valid_request Number trim payload h n =
     (trimmed_host trim (req_host payload) = Inr (Some h) \<and> h \<noteq> [] \<and>
      Number_of Number (req_port payload) = Num n \<and> 0 < n \<and> n = of_int \<lfloor>n\<rfloor> \<and> n \<le> 65535)"

text \<open>
  The request \<open>{host: "pool.local", port: p, timeout: t}\<close>, and a network on which every
  connection attempt ends with an \<open>error\<close> event.
\<close>

definition probe_request :: "real \<Rightarrow> js_value \<Rightarrow> LatencyRequest" where
  "probe_request p t = \<lparr>req_host = VString ''pool.local'', req_port = VNumber (Num p), req_timeout = t\<rparr>"

definition refusing_network :: "string \<Rightarrow> js_number \<Rightarrow> js_number \<Rightarrow> socket_outcome" where
  "refusing_network h p t = ErrorEvent"

text \<open>Two pools as the API lists them, and the state of the hook after a first load.\<close>

definition btc_pool :: json where
  "btc_pool = JObj [(''id'', JStr ''btc'')]"

definition octa_pool :: json where
  "octa_pool = JObj [(''id'', JStr ''octa'')]"

definition loaded_state :: PoolsState where
  "loaded_state = \<lparr>pools = [btc_pool], loading = False, pools_error = None, lastUpdated = Some 1000\<rparr>"

text \<open>The first six of the entries the pools offer.\<close>

definition limited_candidates :: "(string \<Rightarrow> js_number) \<Rightarrow> string \<Rightarrow> Pool list \<Rightarrow> StratumLocation list" where
  "limited_candidates Number h ps = take 6 (candidate_locations Number h ps)"

text \<open>
  Pools for the panel: one with four ports and one with five port keys of which two have
  no truthy number; one whose only port keys are \<open>0\<close> and \<open>stratum\<close>; one whose only port
  key is \<open>-1\<close>.
\<close>

definition panel_pools :: "Pool list" where
  "panel_pools =
     [\<lparr>pool_id = ''btc'',
       pool_ports = Some [(''3001'', emptyConfig), (''3002'', emptyConfig), (''3003'', emptyConfig),
                          (''3004'', emptyConfig)]\<rparr>,
      \<lparr>pool_id = ''octa'',
       pool_ports = Some [(''0'', emptyConfig), (''4001'', emptyConfig), (''4002'', emptyConfig),
                          (''4003'', emptyConfig), (''stratum'', emptyConfig)]\<rparr>]"

definition unusable_pools :: "Pool list" where
  "unusable_pools = [\<lparr>pool_id = ''btc'', pool_ports = Some [(''0'', emptyConfig), (''stratum'', emptyConfig)]\<rparr>]"

definition negative_key_pools :: "Pool list" where
  "negative_key_pools = [\<lparr>pool_id = ''btc'', pool_ports = Some [(''-1'', emptyConfig)]\<rparr>]"

text \<open>
  The tests of the two effects: the selected group id names a group of the current list;
  the selected endpoint id names an endpoint of the group.
\<close>

definition group_still_exists :: "ConnectionRow list \<Rightarrow> SelectionState \<Rightarrow> bool" where
  "group_still_exists rows s =
     (case selectedGroupId s of
        None \<Rightarrow> False
      | Some i \<Rightarrow> i \<noteq> [] \<and> groupById (connectionGroups rows) i \<noteq> None)"

definition endpoint_still_exists :: "ConnectionGroup \<Rightarrow> SelectionState \<Rightarrow> bool" where
  "endpoint_still_exists g s =
     (case selectedEndpointId s of
        None \<Rightarrow> False
      | Some i \<Rightarrow> i \<noteq> [] \<and> list_ex (\<lambda>endpoint. row_id endpoint = i) (endpoints g))"

text \<open>
  The automatic choice of a group: the group of the best-latency row, or else the group of
  the default row, or else the first group.
\<close>

definition automatic_group :: "ConnectionRow list \<Rightarrow> (string \<rightharpoonup> LatencyState) \<Rightarrow> ConnectionGroup option" where
  "automatic_group rows lm =
     orElse (bestLatencyGroup rows lm) (orElse (defaultGroup rows) (first_of (connectionGroups rows)))"

text \<open>
  The choice of an endpoint in a group that does not hold the default endpoint: the first
  endpoint whose profile name contains \<open>mid\<close>, or else the first that has no fixed
  difficulty or has a variable-difficulty minimum, or else the group's best-latency
  endpoint, or else the group's first endpoint.
\<close>

definition endpoint_chain :: "(string \<rightharpoonup> LatencyState) \<Rightarrow> ConnectionGroup \<Rightarrow> ConnectionRow option" where
  "endpoint_chain lm g =
     orElse (find nameHasMid (endpoints g))
       (orElse (find isVarDiffEndpoint (endpoints g))
          (orElse (bestLatencyRow (endpoints g) lm) (first_of (endpoints g))))"

text \<open>The one group of the pool detail page: all its rows are on the deployment's host.\<close>

definition host_group ::
  "(string \<Rightarrow> js_number) \<Rightarrow> string \<Rightarrow> (string \<times> PortConfig) list \<Rightarrow> ConnectionGroup" where
  "host_group Number h es =
     \<lparr>group_id = h, group_host = h, endpoints = sort_by_port (connectionRows Number h es)\<rparr>"

text \<open>
  The port maps \<open>{100: {}, 200: {}}\<close> and \<open>{100: {}}\<close>, the row of such a port, and two
  latency maps: one in which port 100 is the faster, one in which only port 200 has a
  sample.
\<close>

definition two_ports :: "(string \<times> PortConfig) list" where
  "two_ports = [(''100'', emptyConfig), (''200'', emptyConfig)]"

definition only_port_100 :: "(string \<times> PortConfig) list" where
  "only_port_100 = [(''100'', emptyConfig)]"

definition plain_endpoint :: "string \<Rightarrow> real \<Rightarrow> ConnectionRow" where
  "plain_endpoint i p =
     \<lparr>row_id = i, host = ''pool.local'', port = Num p,
      profileName = Null, difficulty = Null, varDiffMin = Null\<rparr>"

definition fast_100 :: "string \<rightharpoonup> LatencyState" where
  "fast_100 = [''pool.local-100'' \<mapsto> success_sample 5, ''pool.local-200'' \<mapsto> success_sample 90]"

definition fast_200 :: "string \<rightharpoonup> LatencyState" where
  "fast_200 = [''pool.local-200'' \<mapsto> success_sample 10]"

section \<open>Best-latency selection\<close>

lemma bestLatency_step_eq:
  "bestLatency_step lm row acc =
     (case success_latency lm row of
        None \<Rightarrow> acc
      | Some l \<Rightarrow> if less_than l (snd acc) then (Some row, Finite l) else acc)"
  by (auto simp: bestLatency_step_def success_latency_def split: option.splits)

lemma best_inv_step:
  assumes "best_inv lm xs acc"
  shows "best_inv lm (xs @ [x]) (bestLatency_step lm x acc)"
proof (cases "fst acc")
  case None
  with assms have inf: "snd acc = POSITIVE_INFINITY"
    and none: "\<forall>r\<in>set xs. success_latency lm r = None"
    by (auto simp: best_inv_def)
  show ?thesis
  proof (cases "success_latency lm x")
    case N: None
    with None inf none show ?thesis
      by (auto simp: best_inv_def bestLatency_step_eq)
  next
    case (Some lx)
    have "\<forall>j<length (xs @ [x]). \<forall>l'. success_latency lm ((xs @ [x]) ! j) = Some l' \<longrightarrow>
            lx \<le> l' \<and> (j < length xs \<longrightarrow> lx < l')"
      using none Some by (auto simp: nth_append less_Suc_eq)
    with Some inf show ?thesis
      unfolding best_inv_def bestLatency_step_eq
      by (auto intro!: exI[of _ "length xs"])
  qed
next
  case (Some r)
  with assms obtain i l where il: "i < length xs" "xs ! i = r"
      "success_latency lm r = Some l" "snd acc = Finite l"
      "\<forall>j<length xs. \<forall>l'. success_latency lm (xs ! j) = Some l' \<longrightarrow> l \<le> l' \<and> (j < i \<longrightarrow> l < l')"
    by (auto simp: best_inv_def)
  show ?thesis
  proof (cases "success_latency lm x")
    case None
    have "\<forall>j<length (xs @ [x]). \<forall>l'. success_latency lm ((xs @ [x]) ! j) = Some l' \<longrightarrow>
            l \<le> l' \<and> (j < i \<longrightarrow> l < l')"
      using il(5) None by (auto simp: nth_append less_Suc_eq)
    with il Some None show ?thesis
      unfolding best_inv_def bestLatency_step_eq
      by (auto simp: nth_append intro!: exI[of _ i])
  next
    case SX: (Some lx)
    show ?thesis
    proof (cases "lx < l")
      case True
      have "\<forall>j<length (xs @ [x]). \<forall>l'. success_latency lm ((xs @ [x]) ! j) = Some l' \<longrightarrow>
              lx \<le> l' \<and> (j < length xs \<longrightarrow> lx < l')"
        using il(5) SX True by (fastforce simp: nth_append less_Suc_eq)
      with SX il(4) True show ?thesis
        unfolding best_inv_def bestLatency_step_eq
        by (auto intro!: exI[of _ "length xs"])
    next
      case False
      have "\<forall>j<length (xs @ [x]). \<forall>l'. success_latency lm ((xs @ [x]) ! j) = Some l' \<longrightarrow>
              l \<le> l' \<and> (j < i \<longrightarrow> l < l')"
        using il(1,5) SX False by (auto simp: nth_append less_Suc_eq)
      with il Some SX False show ?thesis
        unfolding best_inv_def bestLatency_step_eq
        by (auto simp: nth_append intro!: exI[of _ i])
    qed
  qed
qed

lemma best_inv_fold:
  "best_inv lm xs (fold (bestLatency_step lm) xs (None, POSITIVE_INFINITY))"
proof (induction xs rule: rev_induct)
  case Nil
  show ?case by (simp add: best_inv_def)
next
  case (snoc x xs)
  then show ?case using best_inv_step[of lm xs _ x] by simp
qed

text \<open>
  Claim C4. The best-latency selection returns nothing exactly when no row has a
  successful sample. Otherwise it returns a row of the list with a successful sample
  whose latency is the smallest among the successful samples, and of the rows with that
  latency the one that comes first: every successful row is at least as slow, and every
  successful row before it is strictly slower. A row with no sample, or with an idle,
  testing or failed sample, is never returned.
\<close>

theorem bestLatencyRow_selects_minimum:
  "(case bestLatencyRow rows latencyMap of
      None \<Rightarrow> (\<forall>r\<in>set rows. success_latency latencyMap r = None)
    | Some r \<Rightarrow>
        (\<exists>i l. i < length rows \<and> rows ! i = r \<and> success_latency latencyMap r = Some l \<and>
           (\<forall>j<length rows. \<forall>l'. success_latency latencyMap (rows ! j) = Some l' \<longrightarrow>
               l \<le> l' \<and> (j < i \<longrightarrow> l < l'))))"
  using best_inv_fold[of latencyMap rows]
  unfolding best_inv_def bestLatencyRow_def
  by (auto split: option.splits)

text \<open>
  The samples \<open>{A: success 80 ms, B: success 40 ms, C: error}\<close>: the chosen endpoint is
  \<open>B\<close>, the second row, with 40 ms; \<open>C\<close> has no successful sample.
\<close>

theorem bestLatencyRow_example:
  "bestLatencyRow [endpoint_named ''A'', endpoint_named ''B'', endpoint_named ''C'']
     [''A'' \<mapsto> success_sample 80, ''B'' \<mapsto> success_sample 40, ''C'' \<mapsto> error_sample ''timeout'']
   = Some (endpoint_named ''B'')
   \<and> success_latency [''A'' \<mapsto> success_sample 80, ''B'' \<mapsto> success_sample 40, ''C'' \<mapsto> error_sample ''timeout'']
       (endpoint_named ''B'') = Some 40
   \<and> success_latency [''A'' \<mapsto> success_sample 80, ''B'' \<mapsto> success_sample 40, ''C'' \<mapsto> error_sample ''timeout'']
       (endpoint_named ''C'') = None"
  using bestLatencyRow_selects_minimum
    [of "[endpoint_named ''A'', endpoint_named ''B'', endpoint_named ''C'']"
        "[''A'' \<mapsto> success_sample 80, ''B'' \<mapsto> success_sample 40, ''C'' \<mapsto> error_sample ''timeout'']"]
  by (simp add: bestLatencyRow_def bestLatency_step_def success_latency_def endpoint_named_def
      success_sample_def error_sample_def)

section \<open>Default endpoint selection\<close>

lemmas string_defs = toLowerCase_def toLower_char_def condense_def isLowerAlnum_def
lemmas number_defs = decimal_Number_def plain_trim_def isSpace_def unsignedNumber_def digitValue_def
lemmas rows_defs = connectionRows_def emptyConfig_def or_null_def
lemmas default_defs = defaultEndpointRow_def isMidTier_def isPreferred_def nullish_def

lemma startsWith_iff: "startsWith s sub \<longleftrightarrow> (\<exists>post. s = sub @ post)"
  by (induction s sub rule: startsWith.induct) auto

lemma str_includes_iff: "str_includes s sub \<longleftrightarrow> contains_text s sub"
proof (induction s)
  case Nil
  show ?case by (auto simp: contains_text_def)
next
  case (Cons c cs)
  show ?case
  proof
    assume "str_includes (c # cs) sub"
    then consider "startsWith (c # cs) sub" | "str_includes cs sub" by auto
    then show "contains_text (c # cs) sub"
    proof cases
      case 1
      then obtain post where "c # cs = sub @ post" by (auto simp: startsWith_iff)
      then have "c # cs = [] @ sub @ post" by simp
      then show ?thesis unfolding contains_text_def by blast
    next
      case 2
      with Cons obtain pre post where "cs = pre @ sub @ post" by (auto simp: contains_text_def)
      then have "c # cs = (c # pre) @ sub @ post" by simp
      then show ?thesis unfolding contains_text_def by blast
    qed
  next
    assume "contains_text (c # cs) sub"
    then obtain pre post where eq: "c # cs = pre @ sub @ post" by (auto simp: contains_text_def)
    show "str_includes (c # cs) sub"
    proof (cases pre)
      case Nil
      with eq have "startsWith (c # cs) sub" by (auto simp: startsWith_iff)
      then show ?thesis by simp
    next
      case (Cons p ps)
      with eq have "cs = ps @ sub @ post" by simp
      then have "contains_text cs sub" unfolding contains_text_def by blast
      with Cons.IH show ?thesis by simp
    qed
  qed
qed

lemma isMidTier_iff: "isMidTier row \<longleftrightarrow> has_marker row"
proof (cases "profileName row")
  case (Val n)
  then show ?thesis by (simp add: isMidTier_def has_marker_def str_includes_iff Let_def)
next
  case Undefined
  then show ?thesis
    by (simp add: isMidTier_def has_marker_def toLowerCase_def condense_def)
next
  case Null
  then show ?thesis
    by (simp add: isMidTier_def has_marker_def toLowerCase_def condense_def)
qed

lemma isPreferred_iff: "isPreferred row \<longleftrightarrow> difficulty_in_range row"
  by (auto simp: isPreferred_def difficulty_in_range_def effective_difficulty_def nullish_def
      split: js_opt.splits)

text \<open>
  Claim C1, as the code has it. When some row carries the marker, the default endpoint is
  the first row that carries it. The marker is not the bare text \<open>mid\<close>: the profile
  name is put in lower case, stripped of every character other than a to z and 0 to 9,
  and must then contain \<open>midrange\<close>, \<open>midtier\<close> or \<open>medium\<close>.
\<close>

theorem defaultEndpointRow_prefers_marked_name:
  assumes "\<exists>r\<in>set rows. has_marker r"
  shows "\<exists>i<length rows. defaultEndpointRow rows = Some (rows ! i) \<and> has_marker (rows ! i) \<and>
           (\<forall>j<i. \<not> has_marker (rows ! j))"
proof -
  from assms obtain r where r: "r \<in> set rows" "isMidTier r" by (auto simp: isMidTier_iff)
  then have "find isMidTier rows \<noteq> None" by (auto simp: find_None_iff)
  then obtain m where m: "find isMidTier rows = Some m" by auto
  then obtain i where i: "i < length rows" "isMidTier (rows ! i)" "m = rows ! i"
      "\<forall>j<i. \<not> isMidTier (rows ! j)"
    by (auto simp: find_Some_iff)
  from r(1) have "rows \<noteq> []" by auto
  with m have "defaultEndpointRow rows = Some m"
    by (cases rows) (simp_all add: defaultEndpointRow_def)
  with i show ?thesis by (auto simp: isMidTier_iff)
qed

text \<open>
  For the port map \<open>{3333: {}, 3355: {name: "Mid-Range"}, 3377: {}}\<close> the default
  endpoint is port 3355.
\<close>

theorem defaultEndpointRow_mid_range_example:
  "(\<exists>r\<in>set (connectionRows decimal_Number ''pool.local'' ports_with_Mid_Range). has_marker r)
   \<and> map_option port (defaultEndpointRow (connectionRows decimal_Number ''pool.local'' ports_with_Mid_Range)) = Some (Num 3355)"
proof -
  have h: "\<exists>r\<in>set (connectionRows decimal_Number ''pool.local'' ports_with_Mid_Range). has_marker r"
    unfolding isMidTier_iff [symmetric]
    apply (simp add: ports_with_Mid_Range_def rows_defs number_defs)
    apply (simp add: default_defs string_defs)
    done
  have v: "map_option port (defaultEndpointRow (connectionRows decimal_Number ''pool.local'' ports_with_Mid_Range)) = Some (Num 3355)"
    by (simp add: ports_with_Mid_Range_def rows_defs default_defs string_defs number_defs)
  from defaultEndpointRow_prefers_marked_name [OF h] h v show ?thesis by (intro conjI)
qed

text \<open>
  For the port map \<open>{3333: {}, 3355: {name: "Mid"}, 3377: {}}\<close> of the claim the default
  endpoint is port 3333, the first row, although the name of port 3355 contains
  \<open>mid\<close> when put in lower case.
\<close>

theorem defaultEndpointRow_name_Mid_counterexample:
  "map_option port (defaultEndpointRow (connectionRows decimal_Number ''pool.local'' ports_with_Mid)) = Some (Num 3333)
   \<and> str_includes (toLowerCase ''Mid'') ''mid''"
  by (simp add: ports_with_Mid_def rows_defs default_defs string_defs number_defs)

text \<open>
  Claim C5, as the code has it. For a non-empty list of rows none of which carries the
  marker of the first stage (a profile name which, in lower case and without the
  characters other than a to z and 0 to 9, contains \<open>midrange\<close>, \<open>midtier\<close> or
  \<open>medium\<close>), the default endpoint is the first row whose effective difficulty (the
  fixed difficulty, or else the variable-difficulty minimum) is greater than 0 and at most
  2048; when no row has such a difficulty it is the first row of the list.
\<close>

theorem defaultEndpointRow_by_difficulty:
  assumes "rows \<noteq> []" and "\<forall>r\<in>set rows. \<not> has_marker r"
  shows "(\<exists>i<length rows. defaultEndpointRow rows = Some (rows ! i) \<and> difficulty_in_range (rows ! i) \<and>
            (\<forall>j<i. \<not> difficulty_in_range (rows ! j)))
       \<or> ((\<forall>r\<in>set rows. \<not> difficulty_in_range r) \<and> defaultEndpointRow rows = Some (rows ! 0))"
proof -
  from assms(2) have nomid: "find isMidTier rows = None"
    by (auto simp: find_None_iff isMidTier_iff)
  show ?thesis
  proof (cases "find isPreferred rows")
    case None
    then have "\<forall>r\<in>set rows. \<not> difficulty_in_range r" by (auto simp: find_None_iff isPreferred_iff)
    moreover from assms(1) nomid None have "defaultEndpointRow rows = Some (rows ! 0)"
      by (cases rows) (simp_all add: defaultEndpointRow_def)
    ultimately show ?thesis by blast
  next
    case (Some p)
    then obtain i where i: "i < length rows" "isPreferred (rows ! i)" "p = rows ! i"
        "\<forall>j<i. \<not> isPreferred (rows ! j)"
      by (auto simp: find_Some_iff)
    from assms(1) nomid Some have "defaultEndpointRow rows = Some p"
      by (cases rows) (simp_all add: defaultEndpointRow_def)
    with i show ?thesis by (auto simp: isPreferred_iff)
  qed
qed

text \<open>
  For the port map \<open>{100: {difficulty: 4096}, 200: {difficulty: 1024}}\<close> the default
  endpoint is port 200.
\<close>

theorem defaultEndpointRow_difficulty_example:
  "connectionRows decimal_Number ''pool.local'' ports_with_difficulty \<noteq> []
   \<and> \<not> (\<exists>r\<in>set (connectionRows decimal_Number ''pool.local'' ports_with_difficulty). has_marker r)
   \<and> map_option port (defaultEndpointRow (connectionRows decimal_Number ''pool.local'' ports_with_difficulty)) = Some (Num 200)"
proof -
  have h1: "connectionRows decimal_Number ''pool.local'' ports_with_difficulty \<noteq> []"
    by (simp add: ports_with_difficulty_def rows_defs)
  have h2: "\<forall>r\<in>set (connectionRows decimal_Number ''pool.local'' ports_with_difficulty). \<not> has_marker r"
    unfolding isMidTier_iff [symmetric]
    apply (simp add: ports_with_difficulty_def rows_defs number_defs)
    apply (simp add: default_defs string_defs)
    done
  then have h2': "\<not> (\<exists>r\<in>set (connectionRows decimal_Number ''pool.local'' ports_with_difficulty). has_marker r)"
    by blast
  have v: "map_option port (defaultEndpointRow (connectionRows decimal_Number ''pool.local'' ports_with_difficulty)) = Some (Num 200)"
    apply (simp add: ports_with_difficulty_def rows_defs number_defs)
    apply (simp add: default_defs string_defs)
    done
  from defaultEndpointRow_by_difficulty [OF h1 h2] h1 h2' v show ?thesis by (intro conjI)
qed

text \<open>
  For the port map \<open>{100: {difficulty: 1024}, 200: {name: "Me-dium"}}\<close> no name contains
  \<open>mid\<close> or \<open>medium\<close>, in whatever case, and port 100 is the first row with an effective
  difficulty in the range; the default endpoint is port 200, whose name contains \<open>medium\<close>
  once it is condensed.
\<close>

theorem defaultEndpointRow_Me_dium_counterexample:
  "map profileName (connectionRows decimal_Number ''pool.local'' ports_with_Me_dium) = [Null, Val ''Me-dium'']
   \<and> \<not> str_includes (toLowerCase ''Me-dium'') ''mid''
   \<and> \<not> str_includes (toLowerCase ''Me-dium'') ''medium''
   \<and> map effective_difficulty (connectionRows decimal_Number ''pool.local'' ports_with_Me_dium) = [Some 1024, None]
   \<and> map_option port (find isPreferred (connectionRows decimal_Number ''pool.local'' ports_with_Me_dium)) = Some (Num 100)
   \<and> map_option port (defaultEndpointRow (connectionRows decimal_Number ''pool.local'' ports_with_Me_dium)) = Some (Num 200)"
proof -
  have a: "map profileName (connectionRows decimal_Number ''pool.local'' ports_with_Me_dium) = [Null, Val ''Me-dium'']"
    by (simp add: ports_with_Me_dium_def rows_defs)
  have b: "\<not> str_includes (toLowerCase ''Me-dium'') ''mid''"
    by (simp add: string_defs)
  have c: "\<not> str_includes (toLowerCase ''Me-dium'') ''medium''"
    by (simp add: string_defs)
  have d: "map effective_difficulty (connectionRows decimal_Number ''pool.local'' ports_with_Me_dium) = [Some 1024, None]"
    by (simp add: ports_with_Me_dium_def rows_defs effective_difficulty_def)
  have e: "map_option port (defaultEndpointRow (connectionRows decimal_Number ''pool.local'' ports_with_Me_dium)) = Some (Num 200)"
    apply (simp add: ports_with_Me_dium_def rows_defs number_defs)
    apply (simp add: default_defs string_defs)
    done
  have f: "map_option port (find isPreferred (connectionRows decimal_Number ''pool.local'' ports_with_Me_dium)) = Some (Num 100)"
    apply (simp add: ports_with_Me_dium_def rows_defs number_defs)
    apply (simp add: default_defs)
    done
  from a b c d f e show ?thesis by (intro conjI)
qed

section \<open>The latency probe\<close>

lemma POST_valid:
  assumes "valid_request Number trim payload h n"
  shows "POST Number trim (JsonPayload payload) network =
           Inr \<lparr>resp_status = 200,
                resp_body = Result (resolve (network h (Num n) (enforced_timeout Number (req_timeout payload))))\<rparr>"
  using assms
  by (simp add: POST_def valid_request_def createConnection_throws_def js_le_def)

lemma enforced_timeout_cases:
  "enforced_timeout Number requested =
     (case Number_of Number requested of
        NaN \<Rightarrow> Num 3000
      | Num r \<Rightarrow> if r = 0 then Num 3000 else Num (clamp r 500 10000)
      | PosInfinity \<Rightarrow> Num 10000
      | NegInfinity \<Rightarrow> Num 500)"
  by (auto simp: enforced_timeout_def or_number_def truthy_def Math_max_def Math_min_def clamp_def
      split: js_number.splits)

lemma enforced_timeout_bounds:
  "\<exists>t. enforced_timeout Number requested = Num t \<and> 500 \<le> t \<and> t \<le> 10000"
  by (auto simp: enforced_timeout_cases clamp_def split: js_number.splits)

text \<open>
  Claim C3, as the code has it. For a probe request that is accepted and started, the
  timeout given to the socket is a number between 500 and 10000 milliseconds: the clamp of
  the requested timeout to that range when the requested timeout converts to a number
  other than zero (10000 for \<open>Infinity\<close>, 500 for \<open>-Infinity\<close>), and 3000 milliseconds when
  the requested timeout is zero, missing or not a number.
\<close>

theorem enforced_timeout_value:
  assumes "valid_request Number trim payload h n"
  shows "\<exists>t. POST Number trim (JsonPayload payload) network =
                Inr \<lparr>resp_status = 200, resp_body = Result (resolve (network h (Num n) (Num t)))\<rparr>
             \<and> 500 \<le> t \<and> t \<le> 10000
             \<and> Num t = (case Number_of Number (req_timeout payload) of
                          NaN \<Rightarrow> Num 3000
                        | Num r \<Rightarrow> if r = 0 then Num 3000 else Num (clamp r 500 10000)
                        | PosInfinity \<Rightarrow> Num 10000
                        | NegInfinity \<Rightarrow> Num 500)"
proof -
  obtain t where t: "enforced_timeout Number (req_timeout payload) = Num t" "500 \<le> t" "t \<le> 10000"
    using enforced_timeout_bounds by blast
  from POST_valid [OF assms, of network] t(1)
  have "POST Number trim (JsonPayload payload) network =
          Inr \<lparr>resp_status = 200, resp_body = Result (resolve (network h (Num n) (Num t)))\<rparr>"
    by simp
  moreover from t(1) have "Num t = (case Number_of Number (req_timeout payload) of
                          NaN \<Rightarrow> Num 3000
                        | Num r \<Rightarrow> if r = 0 then Num 3000 else Num (clamp r 500 10000)
                        | PosInfinity \<Rightarrow> Num 10000
                        | NegInfinity \<Rightarrow> Num 500)"
    by (simp add: enforced_timeout_cases [symmetric])
  ultimately show ?thesis using t(2,3) by blast
qed

lemma valid_probe_request: "valid_request decimal_Number plain_trim (probe_request 3333 t) ''pool.local'' 3333"
  by (simp add: valid_request_def probe_request_def trimmed_host_def Number_of_def plain_trim_def isSpace_def)

text \<open>
  A request for 20000 milliseconds is probed with 10000; a request with no timeout, or
  with the timeout \<open>"soon"\<close>, with 3000.
\<close>

theorem enforced_timeout_example:
  "valid_request decimal_Number plain_trim (probe_request 3333 (VNumber (Num 20000))) ''pool.local'' 3333
   \<and> POST decimal_Number plain_trim (JsonPayload (probe_request 3333 (VNumber (Num 20000)))) refusing_network =
       Inr \<lparr>resp_status = 200,
            resp_body = Result (resolve (refusing_network ''pool.local'' (Num 3333) (Num 10000)))\<rparr>
   \<and> enforced_timeout decimal_Number (VNumber (Num 20000)) = Num (clamp 20000 500 10000)
   \<and> enforced_timeout decimal_Number VUndefined = Num 3000
   \<and> enforced_timeout decimal_Number (VString ''soon'') = Num 3000"
proof -
  have h: "valid_request decimal_Number plain_trim (probe_request 3333 (VNumber (Num 20000))) ''pool.local'' 3333"
    by (rule valid_probe_request)
  from enforced_timeout_value [OF h, of refusing_network]
  have "POST decimal_Number plain_trim (JsonPayload (probe_request 3333 (VNumber (Num 20000)))) refusing_network =
       Inr \<lparr>resp_status = 200,
            resp_body = Result (resolve (refusing_network ''pool.local'' (Num 3333) (Num 10000)))\<rparr>"
    by (auto simp: refusing_network_def)
  moreover have "enforced_timeout decimal_Number (VNumber (Num 20000)) = Num (clamp 20000 500 10000)"
    by (simp add: enforced_timeout_cases Number_of_def clamp_def)
  moreover have "enforced_timeout decimal_Number VUndefined = Num 3000"
    by (simp add: enforced_timeout_cases Number_of_def)
  moreover have "enforced_timeout decimal_Number (VString ''soon'') = Num 3000"
    by (simp add: enforced_timeout_cases Number_of_def number_defs)
  ultimately show ?thesis using h by (intro conjI)
qed

text \<open>
  A requested timeout of zero is not clamped to 500: the route falls back to 3000
  milliseconds.
\<close>

theorem enforced_timeout_zero_counterexample:
  "enforced_timeout decimal_Number (VNumber (Num 0)) = Num 3000 \<and> clamp 0 500 10000 = 500"
  by (simp add: enforced_timeout_cases Number_of_def clamp_def)

lemma resolve_iff: "result_latency (resolve outcome) = None \<longleftrightarrow> result_error (resolve outcome) \<noteq> None"
  by (cases outcome) (simp_all add: resolve_def)

lemma resolve_not_network_error: "result_error (resolve outcome) \<noteq> Some ''network-error''"
  by (cases outcome) (simp_all add: resolve_def)

lemma testLatency_sample_iff:
  "latency (testLatency_sample outcome) = None \<longleftrightarrow> error (testLatency_sample outcome) \<noteq> None"
  by (auto simp: testLatency_sample_def network_error_def split: fetch_outcome.splits response_json.splits)

lemma Math_round_of_int: "Math_round (of_int ms) = ms"
  by (simp add: Math_round_def)

lemma sample_of_rejected:
  "testLatency_sample FetchRejected = \<lparr>latency = None, status = Error, error = Some ''network-error''\<rparr>"
  by (simp add: testLatency_sample_def network_error_def)

lemma sample_of_resolved:
  "testLatency_sample (answer_of \<lparr>resp_status = 200, resp_body = Result (resolve outcome)\<rparr>) =
     (case outcome of
        Connected ms \<Rightarrow> \<lparr>latency = Some ms, status = Success, error = None\<rparr>
      | ErrorEvent \<Rightarrow> \<lparr>latency = None, status = Error, error = Some ''connect-error''\<rparr>
      | TimeoutEvent \<Rightarrow> \<lparr>latency = None, status = Error, error = Some ''timeout''\<rparr>)"
  by (cases outcome) (simp_all add: testLatency_sample_def answer_of_def resolve_def Math_round_of_int)

text \<open>
  A port above 65535 passes the checks of the route (a number greater than 0), and creating
  the connection throws: the route raises the fault.
\<close>

lemma POST_port_70000:
  "POST decimal_Number plain_trim (JsonPayload (probe_request 70000 (VNumber (Num 4000)))) refusing_network = Inl BadPort"
  by (simp add: POST_def probe_request_def trimmed_host_def Number_of_def plain_trim_def isSpace_def
      createConnection_throws_def js_le_def)

text \<open>
  Claim C7. Take a probe with a valid host and port: the host is a string that is not empty
  once trimmed, and the port converts to an integer from 1 to 65535. The route returns a
  value, never a fault: the answer has status 200 and carries the elapsed milliseconds and
  no error when the connection is established, no latency and \<open>connect-error\<close> on an
  error event of the socket, no latency and \<open>timeout\<close> when the enforced timeout comes
  first; its latency is null exactly when its error is set. The caller, \<open>testLatency\<close>,
  stores the same outcome as its sample, and when the exchange with the route itself fails
  it stores no latency and the error \<open>network-error\<close>; the sample, too, has no latency
  exactly when it has an error.
\<close>

theorem probe_outcomes:
  assumes "valid_request Number trim payload h n"
  shows "\<exists>r sample.
           POST Number trim (JsonPayload payload) network = Inr \<lparr>resp_status = 200, resp_body = Result r\<rparr>
         \<and> probe Number trim payload network transport = Inr sample
         \<and> (result_latency r = None \<longleftrightarrow> result_error r \<noteq> None)
         \<and> (latency sample = None \<longleftrightarrow> error sample \<noteq> None)
         \<and> r = (case network h (Num n) (enforced_timeout Number (req_timeout payload)) of
                  Connected ms \<Rightarrow> \<lparr>result_latency = Some ms, result_error = None\<rparr>
                | ErrorEvent \<Rightarrow> \<lparr>result_latency = None, result_error = Some ''connect-error''\<rparr>
                | TimeoutEvent \<Rightarrow> \<lparr>result_latency = None, result_error = Some ''timeout''\<rparr>)
         \<and> sample =
             (case transport of
                Dropped \<Rightarrow> \<lparr>latency = None, status = Error, error = Some ''network-error''\<rparr>
              | Delivered \<Rightarrow>
                  (case network h (Num n) (enforced_timeout Number (req_timeout payload)) of
                     Connected ms \<Rightarrow> \<lparr>latency = Some ms, status = Success, error = None\<rparr>
                   | ErrorEvent \<Rightarrow> \<lparr>latency = None, status = Error, error = Some ''connect-error''\<rparr>
                   | TimeoutEvent \<Rightarrow> \<lparr>latency = None, status = Error, error = Some ''timeout''\<rparr>))"
proof -
  let ?o = "network h (Num n) (enforced_timeout Number (req_timeout payload))"
  let ?r = "resolve ?o"
  let ?s = "case transport of
              Dropped \<Rightarrow> testLatency_sample FetchRejected
            | Delivered \<Rightarrow> testLatency_sample (answer_of \<lparr>resp_status = 200, resp_body = Result ?r\<rparr>)"
  have post: "POST Number trim (JsonPayload payload) network = Inr \<lparr>resp_status = 200, resp_body = Result ?r\<rparr>"
    by (rule POST_valid [OF assms])
  have pr: "probe Number trim payload network transport = Inr ?s"
    by (simp add: probe_def post split: exchange.splits)
  have r: "?r = (case ?o of
                  Connected ms \<Rightarrow> \<lparr>result_latency = Some ms, result_error = None\<rparr>
                | ErrorEvent \<Rightarrow> \<lparr>result_latency = None, result_error = Some ''connect-error''\<rparr>
                | TimeoutEvent \<Rightarrow> \<lparr>result_latency = None, result_error = Some ''timeout''\<rparr>)"
    by (simp add: resolve_def split: socket_outcome.splits)
  have s: "?s = (case transport of
                Dropped \<Rightarrow> \<lparr>latency = None, status = Error, error = Some ''network-error''\<rparr>
              | Delivered \<Rightarrow>
                  (case ?o of
                     Connected ms \<Rightarrow> \<lparr>latency = Some ms, status = Success, error = None\<rparr>
                   | ErrorEvent \<Rightarrow> \<lparr>latency = None, status = Error, error = Some ''connect-error''\<rparr>
                   | TimeoutEvent \<Rightarrow> \<lparr>latency = None, status = Error, error = Some ''timeout''\<rparr>))"
    by (cases transport) (simp_all add: sample_of_resolved sample_of_rejected)
  have ri: "result_latency ?r = None \<longleftrightarrow> result_error ?r \<noteq> None"
    by (rule resolve_iff)
  have si: "latency ?s = None \<longleftrightarrow> error ?s \<noteq> None"
    by (simp add: testLatency_sample_iff split: exchange.splits)
  from post pr ri si r s show ?thesis by (intro exI [of _ ?r] exI [of _ ?s] conjI)
qed

text \<open>
  The request \<open>{host: "pool.local", port: 3333, timeout: 4000}\<close> on a network that refuses
  the connection: the answer has status 200, no latency and the error \<open>connect-error\<close>,
  which is also the sample of the caller; when the exchange fails the sample has the error
  \<open>network-error\<close>.
\<close>

theorem probe_outcomes_example:
  "valid_request decimal_Number plain_trim (probe_request 3333 (VNumber (Num 4000))) ''pool.local'' 3333
   \<and> POST decimal_Number plain_trim (JsonPayload (probe_request 3333 (VNumber (Num 4000)))) refusing_network =
       Inr \<lparr>resp_status = 200,
            resp_body = Result \<lparr>result_latency = None, result_error = Some ''connect-error''\<rparr>\<rparr>
   \<and> probe decimal_Number plain_trim (probe_request 3333 (VNumber (Num 4000))) refusing_network Delivered =
       Inr \<lparr>latency = None, status = Error, error = Some ''connect-error''\<rparr>
   \<and> probe decimal_Number plain_trim (probe_request 3333 (VNumber (Num 4000))) refusing_network Dropped =
       Inr \<lparr>latency = None, status = Error, error = Some ''network-error''\<rparr>"
proof -
  have h: "valid_request decimal_Number plain_trim (probe_request 3333 (VNumber (Num 4000))) ''pool.local'' 3333"
    by (rule valid_probe_request)
  from probe_outcomes [OF h, of refusing_network Delivered]
  have a: "POST decimal_Number plain_trim (JsonPayload (probe_request 3333 (VNumber (Num 4000)))) refusing_network =
       Inr \<lparr>resp_status = 200,
            resp_body = Result \<lparr>result_latency = None, result_error = Some ''connect-error''\<rparr>\<rparr>"
    and b: "probe decimal_Number plain_trim (probe_request 3333 (VNumber (Num 4000))) refusing_network Delivered =
       Inr \<lparr>latency = None, status = Error, error = Some ''connect-error''\<rparr>"
    by (auto simp: refusing_network_def)
  from probe_outcomes [OF h, of refusing_network Dropped]
  have c: "probe decimal_Number plain_trim (probe_request 3333 (VNumber (Num 4000))) refusing_network Dropped =
       Inr \<lparr>latency = None, status = Error, error = Some ''network-error''\<rparr>"
    by (auto simp: refusing_network_def)
  from h a b c show ?thesis by (intro conjI)
qed

section \<open>Pool data hook\<close>

lemma poolList_array: "poolList (JArr ps) = ps"
  by (simp add: poolList_def pools_property_def)

lemma poolList_wrapped: "map_of props ''pools'' = Some (JArr ps) \<Longrightarrow> poolList (JObj props) = ps"
  by (simp add: poolList_def pools_property_def)

lemma poolList_other:
  assumes "\<forall>ps. body \<noteq> JArr ps"
    and "\<forall>props ps. body = JObj props \<longrightarrow> map_of props ''pools'' \<noteq> Some (JArr ps)"
  shows "poolList body = []"
proof (cases body)
  case (JObj props)
  with assms(2) have "\<forall>ps. map_of props ''pools'' \<noteq> Some (JArr ps)" by simp
  with JObj show ?thesis
    by (auto simp: poolList_def pools_property_def split: option.splits json.splits)
qed (use assms(1) in \<open>auto simp: poolList_def pools_property_def\<close>)

lemma pools_load: "pools (load (Resolved body) now s) = poolList body"
  by (simp add: load_def fetchPools_def)

text \<open>
  Claim C8, as the code has it. \<open>fetchPools\<close> returns the response body as it is. The
  hook's \<open>load\<close> normalizes it: from a bare array it stores that array, unchanged and in
  order; from an object whose \<open>pools\<close> property is an array it stores that array; from a
  body of any other shape it stores the empty array.
\<close>

theorem load_normalizes_pools:
  "fetchPools (Resolved body) = Inr body
   \<and> pools (load (Resolved (JArr ps)) now s) = ps
   \<and> (map_of props ''pools'' = Some (JArr ps) \<longrightarrow> pools (load (Resolved (JObj props)) now s) = ps)
   \<and> ((\<forall>qs. body \<noteq> JArr qs) \<and> (\<forall>fs qs. body = JObj fs \<longrightarrow> map_of fs ''pools'' \<noteq> Some (JArr qs))
        \<longrightarrow> pools (load (Resolved body) now s) = [])"
  using poolList_other [of body]
  by (simp add: pools_load poolList_array poolList_wrapped fetchPools_def)

text \<open>
  The bodies \<open>{pools: [btc, octa]}\<close>, \<open>[octa, btc]\<close> and \<open>{result: [btc]}\<close>.
\<close>

theorem load_normalizes_pools_example:
  "pools (load (Resolved (JObj [(''pools'', JArr [btc_pool, octa_pool])])) 2000 loaded_state) = [btc_pool, octa_pool]
   \<and> pools (load (Resolved (JArr [octa_pool, btc_pool])) 2000 loaded_state) = [octa_pool, btc_pool]
   \<and> pools (load (Resolved (JObj [(''result'', JArr [btc_pool])])) 2000 loaded_state) = []"
proof -
  have a: "map_of [(''pools'', JArr [btc_pool, octa_pool])] ''pools'' = Some (JArr [btc_pool, octa_pool])"
    by simp
  have b: "(\<forall>qs. JObj [(''result'', JArr [btc_pool])] \<noteq> JArr qs) \<and>
           (\<forall>fs qs. JObj [(''result'', JArr [btc_pool])] = JObj fs \<longrightarrow> map_of fs ''pools'' \<noteq> Some (JArr qs))"
    by auto
  from load_normalizes_pools [of "JObj [(''result'', JArr [btc_pool])]" "[btc_pool, octa_pool]" 2000 loaded_state
      "[(''pools'', JArr [btc_pool, octa_pool])]"] a b
  have "pools (load (Resolved (JObj [(''pools'', JArr [btc_pool, octa_pool])])) 2000 loaded_state) = [btc_pool, octa_pool]"
    and "pools (load (Resolved (JObj [(''result'', JArr [btc_pool])])) 2000 loaded_state) = []"
    by blast+
  moreover from load_normalizes_pools [of JNull "[octa_pool, btc_pool]" 2000 loaded_state "[]"]
  have "pools (load (Resolved (JArr [octa_pool, btc_pool])) 2000 loaded_state) = [octa_pool, btc_pool]"
    by blast
  ultimately show ?thesis by (intro conjI)
qed

text \<open>
  For the body \<open>{pools: [btc]}\<close> \<open>fetchPools\<close> returns the object, not the array in it;
  for a body that is a string it returns the string, not an empty array.
\<close>

theorem fetchPools_wrapper_counterexample:
  "fetchPools (Resolved (JObj [(''pools'', JArr [btc_pool])])) = Inr (JObj [(''pools'', JArr [btc_pool])])
   \<and> fetchPools (Resolved (JObj [(''pools'', JArr [btc_pool])])) \<noteq> Inr (JArr [btc_pool])
   \<and> fetchPools (Resolved (JStr ''Bad Gateway'')) \<noteq> Inr (JArr [])"
  by (simp add: fetchPools_def)

text \<open>
  Claim C10. When the fetch of a load fails, the pools and the time of the last update stay
  as they were, the error is \<open>Unable to load pool data.\<close> and the loading flag is cleared.
  When it succeeds, the error is cleared, the time of the last update is the time of the
  load, and the loading flag is cleared.
\<close>

theorem load_failure_keeps_pools:
  "pools (load Rejected now s) = pools s
   \<and> pools_error (load Rejected now s) = Some ''Unable to load pool data.''
   \<and> loading (load Rejected now s) = False
   \<and> lastUpdated (load Rejected now s) = lastUpdated s
   \<and> pools_error (load (Resolved body) now s) = None
   \<and> lastUpdated (load (Resolved body) now s) = Some now
   \<and> loading (load (Resolved body) now s) = False"
  by (simp add: load_def fetchPools_def)

text \<open>
  A failed load after a first successful one: the pool loaded before is still there, with
  the time of its load, and the error is set.
\<close>

theorem load_failure_example:
  "load Rejected 2000 loaded_state = loaded_state\<lparr>pools_error := Some ''Unable to load pool data.''\<rparr>
   \<and> pools (load Rejected 2000 loaded_state) = [btc_pool]"
proof -
  from load_failure_keeps_pools [of 2000 loaded_state JNull]
  have "pools (load Rejected 2000 loaded_state) = [btc_pool]"
    by (simp add: loaded_state_def)
  moreover have "load Rejected 2000 loaded_state =
      loaded_state\<lparr>pools_error := Some ''Unable to load pool data.''\<rparr>"
    by (simp add: load_def fetchPools_def loaded_state_def)
  ultimately show ?thesis by (intro conjI)
qed

section \<open>Locations of the latency panel\<close>

lemma add_port_fold:
  "length gen \<le> 6 \<Longrightarrow>
   fold (add_port Number h pool) keys gen =
     gen @ take (6 - length gen) (map (location_of Number h pool) (filter (\<lambda>p. truthy (Number p)) keys))"
proof (induction keys arbitrary: gen)
  case Nil
  then show ?case by simp
next
  case (Cons k keys)
  show ?case
  proof (cases "truthy (Number k)")
    case False
    with Cons show ?thesis by (simp add: add_port_def)
  next
    case True
    show ?thesis
    proof (cases "length gen \<ge> 6")
      case full: True
      with Cons.prems have "length gen = 6" by simp
      with Cons.IH [of gen] True show ?thesis by (simp add: add_port_def)
    next
      case False
      then have len: "length (gen @ [location_of Number h pool k]) \<le> 6" by simp
      have "6 - length gen = Suc (6 - length (gen @ [location_of Number h pool k]))"
        using False by simp
      with Cons.IH [OF len] True False show ?thesis
        by (simp add: add_port_def)
    qed
  qed
qed

lemma add_pool_length: "length gen \<le> 6 \<Longrightarrow> length (add_pool Number h pool gen) \<le> 6"
  by (simp add: add_pool_def add_port_fold)

lemma add_pool_fold:
  "length gen \<le> 6 \<Longrightarrow>
   fold (add_pool Number h) ps gen = gen @ take (6 - length gen) (candidate_locations Number h ps)"
proof (induction ps arbitrary: gen)
  case Nil
  then show ?case by (simp add: candidate_locations_def)
next
  case (Cons pool ps)
  let ?c = "map (location_of Number h pool) (filter (\<lambda>p. truthy (Number p)) (port_keys pool))"
  let ?g = "add_pool Number h pool gen"
  have g: "?g = gen @ take (6 - length gen) ?c"
    using Cons.prems by (simp add: add_pool_def add_port_fold)
  have "length ?g \<le> 6" using Cons.prems by (rule add_pool_length)
  from Cons.IH [OF this]
  have "fold (add_pool Number h) (pool # ps) gen = ?g @ take (6 - length ?g) (candidate_locations Number h ps)"
    by simp
  also have "\<dots> = gen @ take (6 - length gen) (?c @ candidate_locations Number h ps)"
    using Cons.prems by (simp add: g min_def)
  finally show ?case by (simp add: candidate_locations_def)
qed

lemmas panel_defs = derivedLocations_def add_pool_def add_port_def port_keys_def location_of_def
  fallback_location_def truthy_def

text \<open>
  Claim C9, as the code has it. With no location list given (or an empty one), the list
  the panel derives has at most six entries: it is the first six of the entries that the
  pools offer, one for every port key whose number is truthy (neither \<open>NaN\<close> nor 0), in
  the order of the pools and of their keys; and when there is no such entry it is the one
  fallback entry, with port 5108 on the default host.
\<close>

theorem derivedLocations_limit:
  assumes "locations = None \<or> locations = Some []"
  shows "length (derivedLocations Number ps h locations) \<le> 6
       \<and> derivedLocations Number ps h locations =
           (if limited_candidates Number h ps = [] then [fallback_location h] else limited_candidates Number h ps)
       \<and> loc_port (fallback_location h) = Num 5108
       \<and> loc_host (fallback_location h) = h"
proof -
  have "fold (add_pool Number h) ps [] = limited_candidates Number h ps"
    by (simp add: add_pool_fold limited_candidates_def)
  with assms show ?thesis
    by (auto simp: derivedLocations_def fallback_location_def limited_candidates_def)
qed

text \<open>
  Two pools with seven usable port keys between them give six locations, and the keys
  \<open>0\<close> and \<open>stratum\<close> give none; a pool with no usable key gives the fallback entry.
\<close>

theorem derivedLocations_example:
  "length (derivedLocations decimal_Number panel_pools ''pool.local'' None) \<le> 6
   \<and> map loc_port (derivedLocations decimal_Number panel_pools ''pool.local'' None) =
       [Num 3001, Num 3002, Num 3003, Num 3004, Num 4001, Num 4002]
   \<and> derivedLocations decimal_Number unusable_pools ''pool.local'' (Some []) = [fallback_location ''pool.local'']"
proof -
  have h: "(None :: StratumLocation list option) = None \<or> None = Some []" by simp
  from derivedLocations_limit [OF h, of decimal_Number panel_pools "''pool.local''"]
  have a: "length (derivedLocations decimal_Number panel_pools ''pool.local'' None) \<le> 6" by blast
  have b: "map loc_port (derivedLocations decimal_Number panel_pools ''pool.local'' None) =
       [Num 3001, Num 3002, Num 3003, Num 3004, Num 4001, Num 4002]"
    by (simp add: panel_pools_def panel_defs number_defs)
  have c: "derivedLocations decimal_Number unusable_pools ''pool.local'' (Some []) = [fallback_location ''pool.local'']"
    by (simp add: unusable_pools_def panel_defs number_defs)
  from a b c show ?thesis by (intro conjI)
qed

text \<open>
  The port key \<open>-1\<close> is not a positive number, and it is not skipped: its number is
  truthy, and the panel lists a location with port -1.
\<close>

theorem derivedLocations_negative_key_counterexample:
  "derivedLocations decimal_Number negative_key_pools ''pool.local'' None =
     [\<lparr>loc_id = ''btc--1'', loc_host = ''pool.local'', loc_port = Num (- 1)\<rparr>]"
  by (simp add: negative_key_pools_def panel_defs number_defs)

section \<open>Groups of rows\<close>

lemma map_of_byHost_add:
  "map_of (byHost_add row acc) =
     (map_of acc)(host row \<mapsto> (case map_of acc (host row) of None \<Rightarrow> [row] | Some es \<Rightarrow> es @ [row]))"
  by (induction row acc rule: byHost_add.induct) (auto simp: fun_eq_iff)

lemma keys_byHost_add: "fst ` set (byHost_add row acc) = insert (host row) (fst ` set acc)"
  by (induction row acc rule: byHost_add.induct) auto

lemma distinct_byHost_add:
  "distinct (map fst acc) \<Longrightarrow> distinct (map fst (byHost_add row acc))"
proof (induction row acc rule: byHost_add.induct)
  case (1 row)
  show ?case by simp
next
  case (2 row key es rest)
  then show ?case using keys_byHost_add [of row rest] by (auto simp: image_iff)
qed

lemma distinct_fold_byHost:
  "distinct (map fst acc) \<Longrightarrow> distinct (map fst (fold byHost_add rows acc))"
  by (induction rows arbitrary: acc) (simp_all add: distinct_byHost_add)

lemma map_of_fold_byHost:
  "map_of (fold byHost_add rows acc) k =
     (case map_of acc k of
        None \<Rightarrow> (if filter (\<lambda>r. host r = k) rows = [] then None else Some (filter (\<lambda>r. host r = k) rows))
      | Some es \<Rightarrow> Some (es @ filter (\<lambda>r. host r = k) rows))"
proof (induction rows arbitrary: acc)
  case Nil
  show ?case by (simp split: option.splits)
next
  case (Cons r rows)
  show ?case
    by (simp add: Cons.IH map_of_byHost_add split: option.splits)
qed

lemma byHost_entries:
  "(k, es) \<in> set (fold byHost_add rows []) \<longleftrightarrow> es = filter (\<lambda>r. host r = k) rows \<and> es \<noteq> []"
proof -
  have "distinct (map fst (fold byHost_add rows []))" by (simp add: distinct_fold_byHost)
  then have "(k, es) \<in> set (fold byHost_add rows []) \<longleftrightarrow> map_of (fold byHost_add rows []) k = Some es"
    by simp
  then show ?thesis by (auto simp: map_of_fold_byHost)
qed

lemma set_insert_by_port: "set (insert_by_port a bs) = insert a (set bs)"
  by (induction bs) auto

lemma set_sort_by_port: "set (sort_by_port es) = set es"
  by (induction es) (simp_all add: sort_by_port_def set_insert_by_port)

lemma connectionGroups_member:
  assumes "g \<in> set (connectionGroups rows)"
  shows "group_id g = group_host g" and "set (endpoints g) = {r \<in> set rows. host r = group_host g}"
proof -
  from assms obtain k es where ke: "(k, es) \<in> set (fold byHost_add rows [])"
      "g = \<lparr>group_id = k, group_host = k, endpoints = sort_by_port es\<rparr>"
    by (auto simp: connectionGroups_def)
  then show "group_id g = group_host g" by simp
  from ke show "set (endpoints g) = {r \<in> set rows. host r = group_host g}"
    by (auto simp: byHost_entries set_sort_by_port)
qed

lemma connectionGroups_Nil: "connectionGroups rows = [] \<longleftrightarrow> rows = []"
proof (cases rows)
  case Nil
  then show ?thesis by (simp add: connectionGroups_def)
next
  case (Cons r rs)
  have "(host r, filter (\<lambda>x. host x = host r) rows) \<in> set (fold byHost_add rows [])"
    unfolding byHost_entries using Cons by simp
  then have "fold byHost_add rows [] \<noteq> []" by auto
  with Cons show ?thesis by (simp add: connectionGroups_def)
qed

lemma fold_upd_member:
  "fold (\<lambda>g m. m(f g \<mapsto> g)) gs m0 k = Some x \<Longrightarrow> x \<in> set gs \<or> m0 k = Some x"
proof (induction gs arbitrary: m0)
  case Nil
  then show ?case by simp
next
  case (Cons a gs)
  from Cons.prems have "fold (\<lambda>g m. m(f g \<mapsto> g)) gs (m0(f a \<mapsto> a)) k = Some x"
    by (simp only: fold.simps o_apply)
  from Cons.IH [OF this] show ?case by (auto split: if_splits)
qed

lemma groupById_member: "groupById groups i = Some g \<Longrightarrow> g \<in> set groups"
  unfolding groupById_def by (drule fold_upd_member) simp

lemma groupByHost_member: "groupByHost groups i = Some g \<Longrightarrow> g \<in> set groups"
  unfolding groupByHost_def by (drule fold_upd_member) simp

lemma first_of_member: "first_of xs = Some x \<Longrightarrow> x \<in> set xs"
  by (cases xs) (simp_all add: first_of_def)

lemma group_of_row_member: "group_of_row groups r = Some g \<Longrightarrow> g \<in> set groups"
  by (auto simp: group_of_row_def groupByHost_member split: option.splits if_splits)

lemma orElse_Some: "orElse a b = Some x \<Longrightarrow> a = Some x \<or> b = Some x"
  by (cases a) (simp_all add: orElse_def)

lemma endpointFallbackGroup_member:
  assumes "endpointFallbackGroup rows lm s = Some g"
  shows "g \<in> set (connectionGroups rows)"
proof -
  from assms consider
      "selectedGroup (connectionGroups rows) (selectedGroupId s) = Some g"
    | "bestLatencyGroup rows lm = Some g"
    | "defaultGroup rows = Some g"
    | "first_of (connectionGroups rows) = Some g"
    unfolding endpointFallbackGroup_def Let_def by (blast dest: orElse_Some)
  then show ?thesis
  proof cases
    case 1
    then show ?thesis
      by (auto simp: selectedGroup_def groupById_member split: option.splits if_splits)
  next
    case 2
    then show ?thesis by (simp add: bestLatencyGroup_def group_of_row_member)
  next
    case 3
    then show ?thesis by (simp add: defaultGroup_def group_of_row_member)
  next
    case 4
    then show ?thesis by (rule first_of_member)
  qed
qed

lemma find_member: "find P xs = Some x \<Longrightarrow> x \<in> set xs"
  by (induction xs) (auto split: if_splits)

lemma defaultEndpointRow_member:
  assumes "defaultEndpointRow rows = Some d"
  shows "d \<in> set rows"
proof (cases rows)
  case Nil
  with assms show ?thesis by (simp add: defaultEndpointRow_def)
next
  case (Cons first rest)
  show ?thesis
  proof (cases "find isMidTier rows")
    case (Some m)
    with assms Cons have "d = m" by (simp add: defaultEndpointRow_def)
    with Some show ?thesis by (auto dest: find_member)
  next
    case None
    show ?thesis
    proof (cases "find isPreferred rows")
      case (Some p)
      with assms Cons None have "d = p" by (simp add: defaultEndpointRow_def)
      with Some show ?thesis by (auto dest: find_member)
    next
      case N: None
      with assms Cons None have "d = first" by (simp add: defaultEndpointRow_def)
      with Cons show ?thesis by simp
    qed
  qed
qed

lemma find_id_Some:
  assumes "d \<in> set es"
  shows "\<exists>e. find (\<lambda>endpoint. row_id endpoint = row_id d) es = Some e \<and> row_id e = row_id d"
proof (cases "find (\<lambda>endpoint. row_id endpoint = row_id d) es")
  case None
  with assms show ?thesis by (auto simp: find_None_iff)
next
  case (Some e)
  then show ?thesis by (auto simp: find_Some_iff)
qed

section \<open>Reconciliation of the selection\<close>

lemma groupEffect_nonempty:
  assumes "connectionGroups rows \<noteq> []"
  shows "groupEffect rows lm s t =
     (if \<not> manualSelectionRef t \<or> \<not> group_still_exists rows s then
        (if map_option group_id (automatic_group rows lm) \<noteq> selectedGroupId s
         then t\<lparr>manualSelectionRef := False, selectedGroupId := map_option group_id (automatic_group rows lm)\<rparr>
         else t)
      else t)"
  using assms by (simp add: groupEffect_def group_still_exists_def automatic_group_def Let_def)

lemma endpointEffect_Some:
  assumes "endpointFallbackGroup rows lm s = Some g"
  shows "endpointEffect rows lm s t =
     (if \<not> manualEndpointRef t \<or> \<not> endpoint_still_exists g s then
        (if map_option row_id (pickEndpointForGroup rows lm (Some g)) \<noteq> selectedEndpointId s
         then t\<lparr>manualEndpointRef := False,
                selectedEndpointId := map_option row_id (pickEndpointForGroup rows lm (Some g))\<rparr>
         else t)
      else t)"
  using assms by (simp add: endpointEffect_def endpoint_still_exists_def Let_def)

lemma endpointEffect_group: "selectedGroupId (endpointEffect rows lm s t) = selectedGroupId t"
  by (simp add: endpointEffect_def Let_def split: option.splits)

lemma reconcile_group:
  assumes "connectionGroups rows \<noteq> []" and "\<not> manualSelectionRef s \<or> \<not> group_still_exists rows s"
  shows "selectedGroupId (reconcile rows lm s) = map_option group_id (automatic_group rows lm)"
  using assms(2) by (auto simp: reconcile_def endpointEffect_group groupEffect_nonempty [OF assms(1)])

lemma groupEffect_endpoint_fields:
  assumes "connectionGroups rows \<noteq> []"
  shows "manualEndpointRef (groupEffect rows lm s t) = manualEndpointRef t"
    and "selectedEndpointId (groupEffect rows lm s t) = selectedEndpointId t"
  by (simp_all add: groupEffect_nonempty [OF assms])

lemma reconcile_endpoint:
  assumes "connectionGroups rows \<noteq> []" and "endpointFallbackGroup rows lm s = Some g"
    and "\<not> manualEndpointRef s \<or> \<not> endpoint_still_exists g s"
  shows "selectedEndpointId (reconcile rows lm s) = map_option row_id (pickEndpointForGroup rows lm (Some g))"
  using assms(3)
  by (auto simp: reconcile_def endpointEffect_Some [OF assms(2)] groupEffect_endpoint_fields [OF assms(1)])

lemma fastestEndpointFor_Some:
  "fastestEndpointFor lm (Some g) = orElse (bestLatencyRow (endpoints g) lm) (first_of (endpoints g))"
  by (simp add: fastestEndpointFor_def bestLatencyRow_def)

lemma pick_default:
  assumes "g \<in> set (connectionGroups rows)" and "defaultEndpointRow rows = Some d"
    and "host d = group_host g"
  shows "map_option row_id (pickEndpointForGroup rows lm (Some g)) = Some (row_id d)"
proof -
  from assms(2) have "d \<in> set rows" by (rule defaultEndpointRow_member)
  with assms(1,3) have "d \<in> set (endpoints g)" by (simp add: connectionGroups_member(2))
  then obtain e where "find (\<lambda>endpoint. row_id endpoint = row_id d) (endpoints g) = Some e"
      "row_id e = row_id d"
    using find_id_Some by blast
  with assms(2,3) show ?thesis by (simp add: pickEndpointForGroup_def orElse_def)
qed

lemma pick_chain:
  assumes "defaultEndpointRow rows = Some d" and "host d \<noteq> group_host g"
  shows "pickEndpointForGroup rows lm (Some g) = endpoint_chain lm g"
  using assms by (simp add: pickEndpointForGroup_def endpoint_chain_def fastestEndpointFor_Some orElse_def)

lemma connectionRows_host: "r \<in> set (connectionRows Number h es) \<Longrightarrow> host r = h"
  by (auto simp: connectionRows_def split: if_splits)

lemma connectionRows_nonempty: "connectionRows Number h es \<noteq> []"
  by (simp add: connectionRows_def)

lemma connectionRows_id_nonempty: "r \<in> set (connectionRows Number h es) \<Longrightarrow> row_id r \<noteq> []"
  by (auto simp: connectionRows_def split: if_splits)

lemma fold_byHost_same_host:
  "\<forall>r\<in>set rows. host r = h \<Longrightarrow> fold byHost_add rows [(h, es)] = [(h, es @ rows)]"
  by (induction rows arbitrary: es) simp_all

lemma connectionGroups_same_host:
  assumes "\<forall>r\<in>set rows. host r = h" and "rows \<noteq> []"
  shows "connectionGroups rows = [\<lparr>group_id = h, group_host = h, endpoints = sort_by_port rows\<rparr>]"
proof (cases rows)
  case Nil
  with assms(2) show ?thesis by simp
next
  case (Cons r rest)
  with assms(1) have "host r = h" and "\<forall>x\<in>set rest. host x = h" by simp_all
  then have "fold byHost_add rows [] = [(h, rows)]"
    using fold_byHost_same_host [of rest h "[r]"] Cons by simp
  then show ?thesis by (simp add: connectionGroups_def)
qed

lemma connectionGroups_page: "connectionGroups (connectionRows Number h es) = [host_group Number h es]"
  unfolding host_group_def
  by (rule connectionGroups_same_host) (simp_all add: connectionRows_host connectionRows_nonempty)

lemma endpoint_ids_page: "row_id ` set (endpoints (host_group Number h es)) = row_id ` set (connectionRows Number h es)"
  by (simp add: host_group_def set_sort_by_port)

lemma defaultEndpointRow_page: "\<exists>d. defaultEndpointRow (connectionRows Number h es) = Some d \<and> d \<in> set (connectionRows Number h es)"
proof (cases "defaultEndpointRow (connectionRows Number h es)")
  case None
  then show ?thesis
    using connectionRows_nonempty [of Number h es]
    by (cases "connectionRows Number h es") (simp_all add: defaultEndpointRow_def split: option.splits)
next
  case (Some d)
  then show ?thesis by (simp add: defaultEndpointRow_member)
qed

lemma selectedGroup_page:
  "h \<noteq> [] \<Longrightarrow> selectedGroup [host_group Number h es] (Some h) = Some (host_group Number h es)"
  by (simp add: selectedGroup_def groupById_def host_group_def)

lemma endpointFallbackGroup_page:
  assumes "h \<noteq> []" and "selectedGroupId s = Some h"
  shows "endpointFallbackGroup (connectionRows Number h es) lm s = Some (host_group Number h es)"
  using assms by (simp add: endpointFallbackGroup_def connectionGroups_page selectedGroup_page orElse_def)

lemma group_still_exists_page:
  assumes "h \<noteq> []" and "selectedGroupId s = Some h"
  shows "group_still_exists (connectionRows Number h es) s"
  using assms by (simp add: group_still_exists_def connectionGroups_page groupById_def host_group_def)

lemma endpoint_still_exists_page:
  assumes "selectedEndpointId s = Some x"
  shows "endpoint_still_exists (host_group Number h es) s \<longleftrightarrow> x \<in> row_id ` set (connectionRows Number h es)"
proof -
  have "list_ex (\<lambda>endpoint. row_id endpoint = x) (endpoints (host_group Number h es))
          \<longleftrightarrow> x \<in> row_id ` set (endpoints (host_group Number h es))"
    by (auto simp: list_ex_iff)
  moreover have "x \<in> row_id ` set (connectionRows Number h es) \<Longrightarrow> x \<noteq> []"
    by (auto dest: connectionRows_id_nonempty)
  ultimately show ?thesis using assms
    by (auto simp: endpoint_still_exists_def endpoint_ids_page)
qed

lemma pick_page:
  assumes "defaultEndpointRow (connectionRows Number h es) = Some d"
  shows "map_option row_id (pickEndpointForGroup (connectionRows Number h es) lm (Some (host_group Number h es))) = Some (row_id d)"
proof (rule pick_default [OF _ assms])
  show "host_group Number h es \<in> set (connectionGroups (connectionRows Number h es))"
    by (simp add: connectionGroups_page)
  from assms have "d \<in> set (connectionRows Number h es)" by (rule defaultEndpointRow_member)
  then show "host d = group_host (host_group Number h es)"
    by (simp add: connectionRows_host host_group_def)
qed

lemma rows_two_ports:
  "connectionRows decimal_Number ''pool.local'' two_ports =
     [plain_endpoint ''pool.local-100'' 100, plain_endpoint ''pool.local-200'' 200]"
  by (simp add: two_ports_def plain_endpoint_def rows_defs number_defs)

lemma rows_only_port_100:
  "connectionRows decimal_Number ''pool.local'' only_port_100 = [plain_endpoint ''pool.local-100'' 100]"
  by (simp add: only_port_100_def plain_endpoint_def rows_defs number_defs)

lemma plain_endpoint_fields:
  "row_id (plain_endpoint i p) = i" "host (plain_endpoint i p) = ''pool.local''"
  by (simp_all add: plain_endpoint_def)

lemma not_marked_plain: "\<not> isMidTier (plain_endpoint i p)" "\<not> isPreferred (plain_endpoint i p)"
  by (simp_all add: plain_endpoint_def default_defs string_defs)

lemma default_two_ports:
  "defaultEndpointRow (connectionRows decimal_Number ''pool.local'' two_ports) = Some (plain_endpoint ''pool.local-100'' 100)"
  by (simp add: rows_two_ports defaultEndpointRow_def not_marked_plain)

lemma default_only_port_100:
  "defaultEndpointRow (connectionRows decimal_Number ''pool.local'' only_port_100) = Some (plain_endpoint ''pool.local-100'' 100)"
  by (simp add: rows_only_port_100 defaultEndpointRow_def not_marked_plain)

lemma best_two_ports:
  "bestLatencyRow (connectionRows decimal_Number ''pool.local'' two_ports) fast_200 = Some (plain_endpoint ''pool.local-200'' 200)"
  by (simp add: rows_two_ports bestLatencyRow_def bestLatency_step_def fast_200_def plain_endpoint_fields
      success_sample_def)

lemma orElse_None: "orElse a b = None \<longleftrightarrow> a = None \<and> b = None"
  by (cases a) (simp_all add: orElse_def)

lemma endpointFallbackGroup_page_any:
  "endpointFallbackGroup (connectionRows Number h es) lm s = Some (host_group Number h es)"
proof (cases "endpointFallbackGroup (connectionRows Number h es) lm s")
  case None
  then show ?thesis
    by (simp add: endpointFallbackGroup_def connectionGroups_page orElse_None first_of_def)
next
  case (Some g)
  then have "g \<in> set (connectionGroups (connectionRows Number h es))" by (rule endpointFallbackGroup_member)
  with Some show ?thesis by (simp add: connectionGroups_page)
qed

lemma automatic_group_page: "automatic_group (connectionRows Number h es) lm = Some (host_group Number h es)"
proof (cases "automatic_group (connectionRows Number h es) lm")
  case None
  then show ?thesis
    by (simp add: automatic_group_def connectionGroups_page orElse_None first_of_def)
next
  case (Some g)
  then have "g \<in> set (connectionGroups (connectionRows Number h es))"
    unfolding automatic_group_def bestLatencyGroup_def defaultGroup_def
    by (blast dest: orElse_Some group_of_row_member first_of_member)
  with Some show ?thesis by (simp add: connectionGroups_page)
qed

text \<open>
  Claim C2, as the code has it. On a render with at least one group:
  when no manual group selection is in force, or the selected group is not in the current
  list, the selected group becomes the group of the best-latency row, or else the group of
  the default row, or else the first group.
  When no manual endpoint selection is in force, or the selected endpoint is not among the
  endpoints of the group the effect works on, the selected endpoint becomes the choice of
  \<open>pickEndpointForGroup\<close> for that group: the default endpoint whenever it is on the
  host of that group, whatever the latency samples say; and only when the default endpoint
  is on another host the first endpoint named \<open>mid\<close>, or else the first
  variable-difficulty endpoint, or else the group's best-latency endpoint, or else the
  group's first endpoint.
\<close>

theorem reconcile_automatic_choice:
  assumes "connectionGroups rows \<noteq> []"
  shows "(\<not> manualSelectionRef s \<or> \<not> group_still_exists rows s \<longrightarrow>
            selectedGroupId (reconcile rows lm s) =
              map_option group_id
                (orElse (bestLatencyGroup rows lm) (orElse (defaultGroup rows) (first_of (connectionGroups rows)))))
       \<and> (\<forall>g d. endpointFallbackGroup rows lm s = Some g \<and> defaultEndpointRow rows = Some d \<and>
                 (\<not> manualEndpointRef s \<or> \<not> endpoint_still_exists g s) \<longrightarrow>
              selectedEndpointId (reconcile rows lm s) = map_option row_id (pickEndpointForGroup rows lm (Some g))
              \<and> (host d = group_host g \<longrightarrow> selectedEndpointId (reconcile rows lm s) = Some (row_id d))
              \<and> (host d \<noteq> group_host g \<longrightarrow>
                    selectedEndpointId (reconcile rows lm s) = map_option row_id (endpoint_chain lm g)))"
proof (intro conjI allI impI)
  assume "\<not> manualSelectionRef s \<or> \<not> group_still_exists rows s"
  from reconcile_group [OF assms this]
  show "selectedGroupId (reconcile rows lm s) =
          map_option group_id
            (orElse (bestLatencyGroup rows lm) (orElse (defaultGroup rows) (first_of (connectionGroups rows))))"
    by (simp add: automatic_group_def)
next
  fix g d
  assume a: "endpointFallbackGroup rows lm s = Some g \<and> defaultEndpointRow rows = Some d \<and>
             (\<not> manualEndpointRef s \<or> \<not> endpoint_still_exists g s)"
  then have sel: "selectedEndpointId (reconcile rows lm s) =
                    map_option row_id (pickEndpointForGroup rows lm (Some g))"
    using reconcile_endpoint [OF assms] by blast
  then show "selectedEndpointId (reconcile rows lm s) =
               map_option row_id (pickEndpointForGroup rows lm (Some g))" .
  from a have g: "g \<in> set (connectionGroups rows)" by (blast dest: endpointFallbackGroup_member)
  {
    assume "host d = group_host g"
    with a g sel show "selectedEndpointId (reconcile rows lm s) = Some (row_id d)"
      by (simp add: pick_default)
  }
  {
    assume "host d \<noteq> group_host g"
    with a sel show "selectedEndpointId (reconcile rows lm s) = map_option row_id (endpoint_chain lm g)"
      by (simp add: pick_chain)
  }
qed

text \<open>
  The port map \<open>{100: {}, 200: {}}\<close> with a successful sample of 10 ms for port 200 only,
  on a freshly mounted page: the group of the host is selected, and the endpoint selected
  is port 100, the default endpoint.
\<close>

theorem reconcile_automatic_choice_example:
  "connectionGroups (connectionRows decimal_Number ''pool.local'' two_ports) \<noteq> []
   \<and> selectedGroupId (reconcile (connectionRows decimal_Number ''pool.local'' two_ports) fast_200 initialSelection) = Some ''pool.local''
   \<and> selectedEndpointId (reconcile (connectionRows decimal_Number ''pool.local'' two_ports) fast_200 initialSelection) =
       Some ''pool.local-100''"
proof -
  let ?rows = "connectionRows decimal_Number ''pool.local'' two_ports"
  let ?g = "host_group decimal_Number ''pool.local'' two_ports"
  let ?d = "plain_endpoint ''pool.local-100'' 100"
  have h: "connectionGroups ?rows \<noteq> []" by (simp add: connectionGroups_page)
  note T = reconcile_automatic_choice [OF h, of initialSelection fast_200]
  have auto: "\<not> manualSelectionRef initialSelection" "\<not> manualEndpointRef initialSelection"
    by (simp_all add: initialSelection_def)
  have fb: "endpointFallbackGroup ?rows fast_200 initialSelection = Some ?g"
    by (rule endpointFallbackGroup_page_any)
  have hd: "host ?d = group_host ?g" by (simp add: plain_endpoint_fields host_group_def)
  from T auto(1) have "selectedGroupId (reconcile ?rows fast_200 initialSelection) =
       map_option group_id (orElse (bestLatencyGroup ?rows fast_200) (orElse (defaultGroup ?rows) (first_of (connectionGroups ?rows))))"
    by blast
  then have a: "selectedGroupId (reconcile ?rows fast_200 initialSelection) = Some ''pool.local''"
    using automatic_group_page [of decimal_Number "''pool.local''" two_ports fast_200]
    by (simp add: automatic_group_def host_group_def)
  from T fb default_two_ports auto(2) hd
  have "selectedEndpointId (reconcile ?rows fast_200 initialSelection) = Some (row_id ?d)"
    by blast
  then have b: "selectedEndpointId (reconcile ?rows fast_200 initialSelection) = Some ''pool.local-100''"
    by (simp add: plain_endpoint_fields)
  from h a b show ?thesis by (intro conjI)
qed

text \<open>
  On the same input the best-latency endpoint is port 200, and the automatic choice of the
  endpoint is port 100.
\<close>

theorem reconcile_not_best_latency_counterexample:
  "map_option row_id (bestLatencyRow (connectionRows decimal_Number ''pool.local'' two_ports) fast_200) = Some ''pool.local-200''
   \<and> selectedEndpointId (reconcile (connectionRows decimal_Number ''pool.local'' two_ports) fast_200 initialSelection) =
       Some ''pool.local-100''"
proof -
  let ?rows = "connectionRows decimal_Number ''pool.local'' two_ports"
  let ?g = "host_group decimal_Number ''pool.local'' two_ports"
  have h: "connectionGroups ?rows \<noteq> []" by (simp add: connectionGroups_page)
  have fb: "endpointFallbackGroup ?rows fast_200 initialSelection = Some ?g"
    by (rule endpointFallbackGroup_page_any)
  have "\<not> manualEndpointRef initialSelection \<or> \<not> endpoint_still_exists ?g initialSelection"
    by (simp add: initialSelection_def)
  from reconcile_endpoint [OF h fb this]
  have "selectedEndpointId (reconcile ?rows fast_200 initialSelection) = Some ''pool.local-100''"
    by (simp add: pick_page [OF default_two_ports] plain_endpoint_fields)
  then show ?thesis by (simp add: best_two_ports plain_endpoint_fields)
qed

section \<open>Manual selection of an endpoint\<close>

lemma groupEffect_manual_page:
  assumes "h \<noteq> []" and "selectedGroupId s = Some h" and "manualSelectionRef t"
  shows "groupEffect (connectionRows Number h es) lm s t = t"
proof -
  have "connectionGroups (connectionRows Number h es) \<noteq> []" by (simp add: connectionGroups_page)
  from groupEffect_nonempty [OF this] assms group_still_exists_page [OF assms(1,2)]
  show ?thesis by simp
qed

lemma reconcile_sticky:
  assumes "h \<noteq> []" and "manualSelectionRef s" and "manualEndpointRef s"
    and "selectedGroupId s = Some h" and "selectedEndpointId s = Some x"
    and "x \<in> row_id ` set (connectionRows Number h es)"
  shows "reconcile (connectionRows Number h es) lm s = s"
proof -
  have g: "groupEffect (connectionRows Number h es) lm s s = s"
    using assms(1,4,2) by (rule groupEffect_manual_page)
  have "endpoint_still_exists (host_group Number h es) s"
    using assms(5,6) by (simp add: endpoint_still_exists_page)
  with assms(3) show ?thesis
    by (simp add: reconcile_def g endpointEffect_Some [OF endpointFallbackGroup_page [OF assms(1,4)]])
qed

lemma reconcile_revert:
  assumes "h \<noteq> []" and "manualSelectionRef s"
    and "selectedGroupId s = Some h" and "selectedEndpointId s = Some x"
    and "x \<notin> row_id ` set (connectionRows Number h es)"
  shows "reconcile (connectionRows Number h es) lm s =
           s\<lparr>manualEndpointRef := False,
             selectedEndpointId := map_option row_id (defaultEndpointRow (connectionRows Number h es))\<rparr>"
proof -
  have g: "groupEffect (connectionRows Number h es) lm s s = s"
    using assms(1,3,2) by (rule groupEffect_manual_page)
  obtain d where d: "defaultEndpointRow (connectionRows Number h es) = Some d" "d \<in> set (connectionRows Number h es)"
    using defaultEndpointRow_page by blast
  with assms(5) have ne: "Some (row_id d) \<noteq> selectedEndpointId s"
    using assms(4) by auto
  have "\<not> endpoint_still_exists (host_group Number h es) s"
    using assms(4,5) by (simp add: endpoint_still_exists_page)
  with ne show ?thesis
    by (simp add: reconcile_def g endpointEffect_Some [OF endpointFallbackGroup_page [OF assms(1,3)]]
        pick_page [OF d(1)] d(1))
qed

lemma selectEndpoint_fields:
  "manualSelectionRef (selectEndpoint g e s)"
  "manualEndpointRef (selectEndpoint g e s)"
  "selectedGroupId (selectEndpoint g e s) = Some (group_id g)"
  "selectedEndpointId (selectEndpoint g e s) = Some (row_id e)"
  by (auto simp: selectEndpoint_def Let_def)

lemma refreshes_sticky:
  assumes "h \<noteq> []" and "manualSelectionRef s" and "manualEndpointRef s"
    and "selectedGroupId s = Some h" and "selectedEndpointId s = Some x"
    and "\<forall>r\<in>set rs. x \<in> row_id ` set (connectionRows Number h (fst r))"
  shows "refreshes Number h rs s = s"
  using assms(6)
proof (induction rs)
  case Nil
  show ?case by (simp add: refreshes_def)
next
  case (Cons r rs)
  then have "x \<in> row_id ` set (connectionRows Number h (fst r))" by simp
  from reconcile_sticky [OF assms(1,2,3,4,5) this]
  have "refresh Number h r s = s" by (simp add: refresh_def)
  with Cons show ?case by (simp add: refreshes_def)
qed

text \<open>
  Claim C6. On the pool detail page, let the user select an endpoint of the group shown.
  Then every run of data refreshes whose rows still contain that endpoint leaves the whole
  selection state as the click left it, whatever the latency samples of those refreshes
  are: the endpoint stays selected and the selection stays manual. On the next refresh
  whose rows do not contain the endpoint, the state becomes, in that same render, the
  state that the refresh computes when the selection is not manual: the manual flag is
  cleared and the selected endpoint is the automatic choice, the default endpoint of the
  new rows.
\<close>

theorem manual_endpoint_sticky_until_absent:
  assumes "stratumHost \<noteq> []"
    and "grp \<in> set (connectionGroups (connectionRows Number stratumHost portEntries))"
    and "endpoint \<in> set (endpoints grp)"
    and "\<forall>r\<in>set rs. row_id endpoint \<in> row_id ` set (connectionRows Number stratumHost (fst r))"
    and "row_id endpoint \<notin> row_id ` set (connectionRows Number stratumHost (fst r'))"
  shows "refreshes Number stratumHost rs (selectEndpoint grp endpoint s) = selectEndpoint grp endpoint s
       \<and> selectedEndpointId (selectEndpoint grp endpoint s) = Some (row_id endpoint)
       \<and> manualEndpointRef (selectEndpoint grp endpoint s)
       \<and> refresh Number stratumHost r' (refreshes Number stratumHost rs (selectEndpoint grp endpoint s)) =
           refresh Number stratumHost r' ((selectEndpoint grp endpoint s)\<lparr>manualEndpointRef := False\<rparr>)
       \<and> \<not> manualEndpointRef (refresh Number stratumHost r' (refreshes Number stratumHost rs (selectEndpoint grp endpoint s)))
       \<and> selectedEndpointId (refresh Number stratumHost r' (refreshes Number stratumHost rs (selectEndpoint grp endpoint s))) =
           map_option row_id (defaultEndpointRow (connectionRows Number stratumHost (fst r')))"
proof -
  let ?S = "selectEndpoint grp endpoint s"
  let ?T = "?S\<lparr>manualEndpointRef := False\<rparr>"
  from assms(2) have "group_id grp = stratumHost"
    by (simp add: connectionGroups_page host_group_def)
  then have S: "manualSelectionRef ?S" "manualEndpointRef ?S" "selectedGroupId ?S = Some stratumHost"
      "selectedEndpointId ?S = Some (row_id endpoint)"
    by (simp_all add: selectEndpoint_fields)
  have keep: "refreshes Number stratumHost rs ?S = ?S"
    using assms(1) S assms(4) by (rule refreshes_sticky)
  have T: "manualSelectionRef ?T" "selectedGroupId ?T = Some stratumHost"
      "selectedEndpointId ?T = Some (row_id endpoint)"
    using S by simp_all
  have r1: "refresh Number stratumHost r' ?S =
              ?S\<lparr>manualEndpointRef := False,
                 selectedEndpointId := map_option row_id (defaultEndpointRow (connectionRows Number stratumHost (fst r')))\<rparr>"
    unfolding refresh_def using assms(1) S(1,3,4) assms(5) by (rule reconcile_revert)
  have r2: "refresh Number stratumHost r' ?T =
              ?T\<lparr>manualEndpointRef := False,
                 selectedEndpointId := map_option row_id (defaultEndpointRow (connectionRows Number stratumHost (fst r')))\<rparr>"
    unfolding refresh_def using assms(1) T assms(5) by (rule reconcile_revert)
  from keep S r1 r2 show ?thesis by simp
qed

text \<open>
  The user selects port 200 of \<open>{100: {}, 200: {}}\<close>. Two refreshes in which port 100 has
  the better latency leave port 200 selected; a refresh with the port map \<open>{100: {}}\<close>
  selects port 100 and clears the manual flag.
\<close>

theorem manual_endpoint_sticky_example:
  "selectedEndpointId
     (refreshes decimal_Number ''pool.local'' [(two_ports, fast_100), (two_ports, fast_100)]
        (selectEndpoint (host_group decimal_Number ''pool.local'' two_ports) (plain_endpoint ''pool.local-200'' 200) initialSelection))
     = Some ''pool.local-200''
   \<and> map_option row_id (bestLatencyRow (connectionRows decimal_Number ''pool.local'' two_ports) fast_100) = Some ''pool.local-100''
   \<and> selectedEndpointId
       (refresh decimal_Number ''pool.local'' (only_port_100, fast_100)
          (refreshes decimal_Number ''pool.local'' [(two_ports, fast_100), (two_ports, fast_100)]
             (selectEndpoint (host_group decimal_Number ''pool.local'' two_ports) (plain_endpoint ''pool.local-200'' 200) initialSelection)))
     = Some ''pool.local-100''
   \<and> \<not> manualEndpointRef
       (refresh decimal_Number ''pool.local'' (only_port_100, fast_100)
          (refreshes decimal_Number ''pool.local'' [(two_ports, fast_100), (two_ports, fast_100)]
             (selectEndpoint (host_group decimal_Number ''pool.local'' two_ports) (plain_endpoint ''pool.local-200'' 200) initialSelection)))"
proof -
  let ?g = "host_group decimal_Number ''pool.local'' two_ports"
  let ?e = "plain_endpoint ''pool.local-200'' 200"
  let ?rs = "[(two_ports, fast_100), (two_ports, fast_100)]"
  have h1: "''pool.local'' \<noteq> []" by simp
  have h2: "?g \<in> set (connectionGroups (connectionRows decimal_Number ''pool.local'' two_ports))"
    by (simp add: connectionGroups_page)
  have h3: "?e \<in> set (endpoints ?g)"
    by (simp add: host_group_def set_sort_by_port rows_two_ports)
  have h4: "\<forall>r\<in>set ?rs. row_id ?e \<in> row_id ` set (connectionRows decimal_Number ''pool.local'' (fst r))"
    by (simp add: rows_two_ports)
  have h5: "row_id ?e \<notin> row_id ` set (connectionRows decimal_Number ''pool.local'' (fst (only_port_100, fast_100)))"
    by (simp add: rows_only_port_100 plain_endpoint_fields)
  note T = manual_endpoint_sticky_until_absent [OF h1 h2 h3 h4 h5, of initialSelection]
  from T have "selectedEndpointId (refreshes decimal_Number ''pool.local'' ?rs (selectEndpoint ?g ?e initialSelection)) = Some (row_id ?e)"
    by simp
  then have a: "selectedEndpointId (refreshes decimal_Number ''pool.local'' ?rs (selectEndpoint ?g ?e initialSelection)) = Some ''pool.local-200''"
    by (simp add: plain_endpoint_fields)
  have b: "map_option row_id (bestLatencyRow (connectionRows decimal_Number ''pool.local'' two_ports) fast_100) = Some ''pool.local-100''"
    by (simp add: rows_two_ports bestLatencyRow_def bestLatency_step_def fast_100_def plain_endpoint_fields
        success_sample_def)
  from T have "selectedEndpointId (refresh decimal_Number ''pool.local'' (only_port_100, fast_100)
          (refreshes decimal_Number ''pool.local'' ?rs (selectEndpoint ?g ?e initialSelection))) =
        map_option row_id (defaultEndpointRow (connectionRows decimal_Number ''pool.local'' (fst (only_port_100, fast_100))))"
    by blast
  then have c: "selectedEndpointId (refresh decimal_Number ''pool.local'' (only_port_100, fast_100)
          (refreshes decimal_Number ''pool.local'' ?rs (selectEndpoint ?g ?e initialSelection))) = Some ''pool.local-100''"
    by (simp add: default_only_port_100 plain_endpoint_fields)
  from T have d: "\<not> manualEndpointRef (refresh decimal_Number ''pool.local'' (only_port_100, fast_100)
          (refreshes decimal_Number ''pool.local'' ?rs (selectEndpoint ?g ?e initialSelection)))"
    by blast
  from a b c d show ?thesis by (intro conjI)
qed

end
